theory Spec2Isabelle
  imports Main "HOL-Library.Sublist"
begin

text \<open>
  A storefront rendered on the server. Three modules are embedded: the server entry with
  \<^verbatim>\<open>findRoute\<close> and \<^verbatim>\<open>render\<close> (unnamed/part_000, which the other two import as
  \<^verbatim>\<open>main-server.js\<close>), the HTTP server with its page template and SSR middleware (the
  second module in packages/vanilla/deploy.js), and the static site generator
  (packages/vanilla/static-site-generate.js).
\<close>

section \<open>JavaScript strings\<close>

text \<open>
  Strings are \<^typ>\<open>string\<close>. The functions of this section are the built-in string
  operations that the source calls, each with the argument shapes used there.
\<close>

text \<open>
  \<^verbatim>\<open>s.indexOf(pat)\<close> as a split: the text before the first occurrence of \<open>pat\<close> and the text
  after it. The empty pattern occurs at position 0.
\<close>

fun split_first :: "string \<Rightarrow> string \<Rightarrow> (string \<times> string) option" where
  "split_first pat [] = (if pat = [] then Some ([], []) else None)"
| "split_first pat (c # cs) =
     (if prefix pat (c # cs) then Some ([], drop (length pat) (c # cs))
      else map_option (\<lambda>(a, b). (c # a, b)) (split_first pat cs))"

text \<open>
  The replacement text of \<^verbatim>\<open>String.prototype.replace\<close> with a string pattern
  (GetSubstitution with no captures): \<^verbatim>\<open>$$\<close> is a dollar sign, \<^verbatim>\<open>$&\<close> the matched text,
  \<^verbatim>\<open>$`\<close> the text before the match, \<^verbatim>\<open>$'\<close> the text after it; every other character,
  a dollar sign before a digit or \<^verbatim>\<open><\<close> included, stands for itself.
\<close>

fun getSubstitution :: "string \<Rightarrow> string \<Rightarrow> string \<Rightarrow> string \<Rightarrow> string" where
  "getSubstitution m b a [] = []"
| "getSubstitution m b a [c] = [c]"
| "getSubstitution m b a (c # d # r) =
     (if c = CHR ''$'' then
        (if d = CHR ''$'' then CHR ''$'' # getSubstitution m b a r
         else if d = CHR ''&'' then m @ getSubstitution m b a r
         else if d = CHR 0x60 then b @ getSubstitution m b a r
         else if d = CHR 0x27 then a @ getSubstitution m b a r
         else c # getSubstitution m b a (d # r))
      else c # getSubstitution m b a (d # r))"

text \<open>\<^verbatim>\<open>s.replace(pat, rep)\<close> for a string \<open>pat\<close>: only the first occurrence is replaced.\<close>

definition js_replace :: "string \<Rightarrow> string \<Rightarrow> string \<Rightarrow> string" where
  "js_replace pat rep s =
     (case split_first pat s of
        None \<Rightarrow> s
      | Some (a, b) \<Rightarrow> a @ getSubstitution pat a b rep @ b)"

text \<open>\<^verbatim>\<open>s.replace(/\/$/, "")\<close>: one slash at the very end of the string is removed.\<close>

definition strip_trailing_slash :: "string \<Rightarrow> string" where
  "strip_trailing_slash s = (if s \<noteq> [] \<and> last s = CHR ''/'' then butlast s else s)"

text \<open>\<^verbatim>\<open>s || d\<close> for strings: the empty string is the only falsy string.\<close>

definition js_or :: "string \<Rightarrow> string \<Rightarrow> string" where
  "js_or s d = (if s = [] then d else s)"

text \<open>\<^verbatim>\<open>s.split("?")[0]\<close>: the text before the first question mark.\<close>

definition before_query :: "string \<Rightarrow> string" where
  "before_query s = takeWhile (\<lambda>c. c \<noteq> CHR ''?'') s"

section \<open>Route matching (findRoute of the server entry)\<close>

datatype page = HomePage | ProductDetailPage | NotFoundPage

type_synonym params = "(string \<times> string) list"

record route =
  handler :: page
  params :: params

text \<open>
  A route pattern becomes a regular expression: every \<^verbatim>\<open>:\w+\<close> becomes the group
  \<^verbatim>\<open>([^/]+)\<close> and its name is pushed on \<^verbatim>\<open>paramNames\<close>; every other character of the
  two patterns of the source is a letter or a slash and matches itself (the escaping of
  the slashes changes nothing in what is matched). The expression is anchored at both
  ends.
\<close>

datatype token = Lit char | Param string

definition is_word_char :: "char \<Rightarrow> bool" where
  "is_word_char c \<longleftrightarrow>
     c \<in> set ''abcdefghijklmnopqrstuvwxyzABCDEFGHIJKLMNOPQRSTUVWXYZ0123456789_''"

function compile_pattern :: "string \<Rightarrow> token list" where
  "compile_pattern [] = []"
| "compile_pattern (c # cs) =
     (if c = CHR '':'' \<and> takeWhile is_word_char cs \<noteq> []
      then Param (takeWhile is_word_char cs) # compile_pattern (dropWhile is_word_char cs)
      else Lit c # compile_pattern cs)"
  by pat_completeness auto
termination
  by (relation "measure length") (auto simp: length_dropWhile_le le_imp_less_Suc)

fun paramNames :: "token list \<Rightarrow> string list" where
  "paramNames [] = []"
| "paramNames (Lit c # ts) = paramNames ts"
| "paramNames (Param n # ts) = n # paramNames ts"

fun first_some :: "('a \<Rightarrow> 'b option) \<Rightarrow> 'a list \<Rightarrow> 'b option" where
  "first_some f [] = None"
| "first_some f (x # xs) = (case f x of Some y \<Rightarrow> Some y | None \<Rightarrow> first_some f xs)"

text \<open>
  Matching the anchored expression against the whole string; the result is the list of
  captured groups. A group takes the longest run of non-slash characters first and gives
  characters back while the rest of the expression fails, as the backtracking matcher
  does.
\<close>

fun match_tokens :: "token list \<Rightarrow> string \<Rightarrow> string list option" where
  "match_tokens [] s = (if s = [] then Some [] else None)"
| "match_tokens (Lit c # ts) s =
     (case s of [] \<Rightarrow> None | x # xs \<Rightarrow> if x = c then match_tokens ts xs else None)"
| "match_tokens (Param n # ts) s =
     first_some
       (\<lambda>k. map_option (\<lambda>caps. take k s # caps) (match_tokens ts (drop k s)))
       (rev [1 ..< Suc (length (takeWhile (\<lambda>c. c \<noteq> CHR ''/'') s))])"

definition routes :: "(string \<times> page) list" where
  "routes = [(''/'', HomePage), (''/product/:id'', ProductDetailPage)]"

fun match_routes :: "(string \<times> page) list \<Rightarrow> string \<Rightarrow> route" where
  "match_routes [] p = \<lparr>handler = NotFoundPage, params = []\<rparr>"
| "match_routes ((pat, h) # rs) p =
     (case match_tokens (compile_pattern pat) p of
        Some caps \<Rightarrow> \<lparr>handler = h, params = zip (paramNames (compile_pattern pat)) caps\<rparr>
      | None \<Rightarrow> match_routes rs p)"

definition cleanPath :: "string \<Rightarrow> string \<Rightarrow> string" where
  "cleanPath url baseUrl =
     js_or (strip_trailing_slash (js_replace baseUrl [] (before_query url))) ''/''"

definition findRoute :: "string \<Rightarrow> string \<Rightarrow> route" where
  "findRoute url baseUrl = match_routes routes (cleanPath url baseUrl)"

section \<open>JavaScript values\<close>

text \<open>
  The values that cross the boundaries of the three files: what the product API resolves
  with, what a query object holds, what \<^verbatim>\<open>JSON.parse\<close> returns. \<open>JNum\<close> holds the
  integer-valued numbers.
\<close>

datatype jsval =
    JUndefined
  | JNull
  | JBool bool
  | JNum int
  | JStr string
  | JArr "jsval list"
  | JObj "(string \<times> jsval) list"

text \<open>An exception is an \<^verbatim>\<open>Error\<close> object; only its \<^verbatim>\<open>message\<close> is read.\<close>

datatype error = Error (message: string)

type_synonym query = "(string \<times> jsval) list"

text \<open>The condition of an \<^verbatim>\<open>if\<close>: ToBoolean.\<close>

fun truthy :: "jsval \<Rightarrow> bool" where
  "truthy JUndefined = False"
| "truthy JNull = False"
| "truthy (JBool b) = b"
| "truthy (JNum n) = (n \<noteq> 0)"
| "truthy (JStr s) = (s \<noteq> [])"
| "truthy (JArr xs) = True"
| "truthy (JObj kvs) = True"

text \<open>
  Reading a property \<^verbatim>\<open>v.k\<close>, for the names the source reads (\<^verbatim>\<open>products\<close>,
  \<^verbatim>\<open>pagination\<close>, \<^verbatim>\<open>total\<close>, \<^verbatim>\<open>category2\<close>, \<^verbatim>\<open>productId\<close>, \<^verbatim>\<open>html\<close>,
  \<^verbatim>\<open>initialData\<close>): none of them is a property of a built-in prototype, so only an
  object can have one, every other value gives \<^verbatim>\<open>undefined\<close>, and \<^verbatim>\<open>null\<close> and
  \<^verbatim>\<open>undefined\<close> throw a TypeError, whose message names the property in single
  quotes.
\<close>

definition cannotRead :: "string \<Rightarrow> string \<Rightarrow> error" where
  "cannotRead what k =
     Error (''Cannot read properties of '' @ what @ '' (reading '' @ [CHR 0x27] @ k @
            [CHR 0x27] @ '')'')"

definition js_get :: "jsval \<Rightarrow> string \<Rightarrow> error + jsval" where
  "js_get v k =
     (case v of
        JUndefined \<Rightarrow> Inl (cannotRead ''undefined'' k)
      | JNull \<Rightarrow> Inl (cannotRead ''null'' k)
      | JObj kvs \<Rightarrow> Inr (case map_of kvs k of Some x \<Rightarrow> x | None \<Rightarrow> JUndefined)
      | _ \<Rightarrow> Inr JUndefined)"

text \<open>Decimal digits of a natural number, and of an integer.\<close>

fun show_nat :: "nat \<Rightarrow> string" where
  "show_nat n =
     (if n < 10 then [char_of (48 + n)]
      else show_nat (n div 10) @ [char_of (48 + n mod 10)])"

definition show_int :: "int \<Rightarrow> string" where
  "show_int i = (if i < 0 then CHR ''-'' # show_nat (nat (- i)) else show_nat (nat i))"

fun js_join :: "string \<Rightarrow> string list \<Rightarrow> string" where
  "js_join sep [] = []"
| "js_join sep [x] = x"
| "js_join sep (x # y # ys) = x @ sep @ js_join sep (y # ys)"

text \<open>
  ToString, as a template literal and the replacement argument of
  \<^verbatim>\<open>String.prototype.replace\<close> apply it.
\<close>

fun js_to_string :: "jsval \<Rightarrow> string" where
  "js_to_string JUndefined = ''undefined''"
| "js_to_string JNull = ''null''"
| "js_to_string (JBool b) = (if b then ''true'' else ''false'')"
| "js_to_string (JNum n) = show_int n"
| "js_to_string (JStr s) = s"
| "js_to_string (JArr xs) =
     js_join '',''
       (map (\<lambda>x. if x = JUndefined \<or> x = JNull then [] else js_to_string x) xs)"
| "js_to_string (JObj kvs) = ''[object Object]''"

text \<open>
  \<^verbatim>\<open>s.trim()\<close>: white space and line terminators are removed at both ends (the ones
  below U+0080).
\<close>

definition is_js_space :: "char \<Rightarrow> bool" where
  "is_js_space c \<longleftrightarrow> c \<in> {CHR 0x09, CHR 0x0A, CHR 0x0B, CHR 0x0C, CHR 0x0D, CHR 0x20}"

definition js_trim :: "string \<Rightarrow> string" where
  "js_trim s = rev (dropWhile is_js_space (rev (dropWhile is_js_space s)))"

section \<open>The HTTP server: page template and SSR middleware\<close>

record assets =
  js :: string
  css :: string

text \<open>
  The two long constant stretches of the template literal of \<^verbatim>\<open>createHtmlTemplate\<close>:
  from \<^verbatim>\<open><!DOCTYPE html>\<close> to the style sheet link, and from there to the root element.
\<close>

definition template_head :: string where
  \<open>template_head =
     ''<!DOCTYPE html>\<newline><html lang="ko">\<newline>  <head>\<newline>'' @
     ''    <meta charset="UTF-8" />\<newline>'' @
     ''    <meta name="viewport" content="width=device-width, initial-scale=1.0" />\<newline>'' @
     ''    <script src="https://cdn.tailwindcss.com"></script>\<newline>    ''\<close>

definition template_config :: string where
  \<open>template_config =
     ''\<newline>    <script>\<newline>      tailwind.config = {\<newline>        theme: {\<newline>'' @
     ''          extend: {\<newline>            colors: {\<newline>'' @
     ''              primary: '' @ [CHR 0x27] @ ''#3b82f6'' @ [CHR 0x27] @ '',\<newline>'' @
     ''              secondary: '' @ [CHR 0x27] @ ''#6b7280'' @ [CHR 0x27] @ ''\<newline>'' @
     ''            }\<newline>          }\<newline>        }\<newline>      }\<newline>    </script>\<newline>'' @
     ''  </head>\<newline>  <body class="bg-gray-50">\<newline>    ''\<close>

text \<open>
  \<^verbatim>\<open>createHtmlTemplate(html, baseUrl, isProd, assets)\<close> of the server: the template
  literal, which begins with a line break, and \<^verbatim>\<open>.trim()\<close>.
\<close>

definition createHtmlTemplate :: "string \<Rightarrow> string \<Rightarrow> bool \<Rightarrow> assets \<Rightarrow> string" where
  \<open>createHtmlTemplate html baseUrl isProd as =
     (let cssPath = baseUrl @ css as;
          jsPath = baseUrl @ js as
      in js_trim (''\<newline>'' @ template_head @
                  ''<link rel="stylesheet" href="'' @ cssPath @ ''">'' @
                  template_config @
                  ''<div id="root">'' @ html @ ''</div>'' @
                  ''\<newline>    <script type="module" src="'' @ jsPath @ ''"></script>'' @
                  ''\<newline>  </body>\<newline></html>''))\<close>

record request =
  originalUrl :: string
  query :: query

text \<open>What the console receives: a label and the error, or in production its message.\<close>

datatype console_line = ConsoleError string error | ConsoleErrorMessage string string

text \<open>
  What the middleware does with the request: it sends a response, or it hands the error
  to the next (error) middleware.
\<close>

datatype outcome =
    Sent "(string \<times> string) list" string
  | Next error

text \<open>
  \<^verbatim>\<open>ssrMiddleware(req, res, next)\<close>. The module constants \<^verbatim>\<open>base\<close>, \<^verbatim>\<open>prod\<close> (here \<open>production\<close>) and
  \<^verbatim>\<open>assetFiles\<close> and the imported \<^verbatim>\<open>render\<close> are parameters; a rejected promise is
  \<open>Inl\<close>.
\<close>

definition ssrMiddleware ::
  "(string \<Rightarrow> query \<Rightarrow> error + string) \<Rightarrow> string \<Rightarrow> bool \<Rightarrow> assets \<Rightarrow> request
     \<Rightarrow> console_line list \<times> outcome" where
  "ssrMiddleware render base production assetFiles req =
     (let url = js_or (js_replace base ''/'' (originalUrl req)) ''/''
      in case render url (query req) of
           Inr html \<Rightarrow>
             ([], Sent [(''Content-Type'', ''text/html'')]
                       (createHtmlTemplate html base production assetFiles))
         | Inl e \<Rightarrow>
             ([if production then ConsoleErrorMessage ''SSR Error:'' (message e)
               else ConsoleError ''SSR Error:'' e],
              Next e))"

section \<open>The stores and the router\<close>

text \<open>
  Modelled from the spec: the store module (\<^verbatim>\<open>./stores/index.js\<close>: \<^verbatim>\<open>productStore\<close>,
  \<^verbatim>\<open>cartStore\<close>, \<^verbatim>\<open>uiStore\<close>, their action names and \<^verbatim>\<open>initialProductState\<close>) and
  the router (\<^verbatim>\<open>./router\<close>) are not among the source files. The spec describes three
  independent mutable stores driven by discrete action dispatch, where the last write
  wins. The product state has the fields that the payloads of the source name; each
  action writes what its name and its payload say and leaves every other field as it was.
\<close>

text \<open>Modelled from the spec: the state of the product store.\<close>

record product_state =
  products :: jsval
  categories :: jsval
  totalCount :: jsval
  currentProduct :: jsval
  relatedProducts :: jsval
  loading :: bool
  status :: string
  error :: jsval

text \<open>
  Modelled from the spec: the payload of \<^verbatim>\<open>SETUP\<close>, an object with some of the fields
  of the state (the fields that the source puts into it).
\<close>

record product_payload =
  p_products :: "jsval option"
  p_categories :: "jsval option"
  p_totalCount :: "jsval option"
  p_currentProduct :: "jsval option"
  p_relatedProducts :: "jsval option"
  p_loading :: "bool option"
  p_status :: "string option"
  p_error :: "jsval option"

text \<open>
  Modelled from the spec: the actions that the source dispatches, by the names it uses
  (\<^verbatim>\<open>PRODUCT_ACTIONS.SETUP\<close>, \<^verbatim>\<open>CART_ACTIONS.CLEAR_CART\<close>,
  \<^verbatim>\<open>UI_ACTIONS.CLOSE_CART_MODAL\<close> and so on), each with its payload.
\<close>

datatype product_action =
    SETUP product_payload
  | SET_CURRENT_PRODUCT jsval
  | SET_RELATED_PRODUCTS jsval
  | SET_ERROR string

datatype cart_action = CLEAR_CART

datatype ui_action = CLOSE_CART_MODAL | HIDE_TOAST

text \<open>Modelled from the spec: the state of the cart store and of the UI store.\<close>

record cart_state =
  items :: "jsval list"

record ui_state =
  cartModalOpen :: bool
  toastVisible :: bool

definition or_old :: "'a option \<Rightarrow> 'a \<Rightarrow> 'a" where
  "or_old new old = (case new of Some v \<Rightarrow> v | None \<Rightarrow> old)"

text \<open>Modelled from the spec: the reducer of the product store.\<close>

fun productReducer :: "product_state \<Rightarrow> product_action \<Rightarrow> product_state" where
  "productReducer s (SETUP p) =
     \<lparr>products = or_old (p_products p) (products s),
      categories = or_old (p_categories p) (categories s),
      totalCount = or_old (p_totalCount p) (totalCount s),
      currentProduct = or_old (p_currentProduct p) (currentProduct s),
      relatedProducts = or_old (p_relatedProducts p) (relatedProducts s),
      loading = or_old (p_loading p) (loading s),
      status = or_old (p_status p) (status s),
      error = or_old (p_error p) (error s)\<rparr>"
| "productReducer s (SET_CURRENT_PRODUCT v) = s\<lparr>currentProduct := v\<rparr>"
| "productReducer s (SET_RELATED_PRODUCTS v) = s\<lparr>relatedProducts := v\<rparr>"
| "productReducer s (SET_ERROR m) = s\<lparr>error := JStr m\<rparr>"

text \<open>Modelled from the spec: the reducer of the cart store.\<close>

fun cartReducer :: "cart_state \<Rightarrow> cart_action \<Rightarrow> cart_state" where
  "cartReducer s CLEAR_CART = s\<lparr>items := []\<rparr>"

text \<open>Modelled from the spec: the reducer of the UI store.\<close>

fun uiReducer :: "ui_state \<Rightarrow> ui_action \<Rightarrow> ui_state" where
  "uiReducer s CLOSE_CART_MODAL = s\<lparr>cartModalOpen := False\<rparr>"
| "uiReducer s HIDE_TOAST = s\<lparr>toastVisible := False\<rparr>"

text \<open>
  The module-level state that a request meets and leaves behind: the three stores and
  what the router was last given.
\<close>

record stores =
  productStore :: product_state
  cartStore :: cart_state
  uiStore :: ui_state
  serverRoute :: "(string \<times> query \<times> params) option"

section \<open>Server-side rendering (render of the server entry)\<close>

text \<open>What a call of \<^verbatim>\<open>render\<close> does besides computing, in the order in which it does it.\<close>

text \<open>
  The four places that call \<^verbatim>\<open>console.error\<close> (the labels of the source are Korean
  sentences; the place stands for the label).
\<close>

datatype origin = InPrefetchProducts | InPrefetchProductDetail | InRelatedProducts | InRender

datatype event =
    SetServerRoute string query params
  | DispatchProduct product_action
  | DispatchCart cart_action
  | DispatchUI ui_action
  | GetProducts query
  | GetCategories
  | GetProduct string
  | Console origin error
  | Invoke page

type_synonym world = "stores \<times> event list"

text \<open>
  What the module imports and does not define: the base URL, the initial product state,
  the three calls of the product API (a rejected promise is \<open>Inl\<close>) and the page
  functions, which read the stores and the router and return the HTML or throw. The
  requests for the product list and for the categories run at the same time:
  \<open>categoriesSettleFirst q\<close> says that, after \<^verbatim>\<open>getProducts(q)\<close> and
  \<^verbatim>\<open>getCategories()\<close> were started together, the answer for the categories arrives
  before that for the product list.
\<close>

record env =
  BASE_URL :: string
  initialProductState :: product_state
  getProducts :: "query \<Rightarrow> error + jsval"
  getCategories :: "error + jsval"
  categoriesSettleFirst :: "query \<Rightarrow> bool"
  getProduct :: "string \<Rightarrow> error + jsval"
  pages :: "page \<Rightarrow> stores \<Rightarrow> error + string"

definition emit :: "event \<Rightarrow> world \<Rightarrow> world" where
  "emit e w = (fst w, snd w @ [e])"

text \<open>
  \<^verbatim>\<open>store.dispatch(action)\<close>: the reducer of the store gives the new state.
\<close>

definition dispatchProduct :: "product_action \<Rightarrow> world \<Rightarrow> world" where
  "dispatchProduct a w =
     ((fst w)\<lparr>productStore := productReducer (productStore (fst w)) a\<rparr>,
      snd w @ [DispatchProduct a])"

definition dispatchCart :: "cart_action \<Rightarrow> world \<Rightarrow> world" where
  "dispatchCart a w =
     ((fst w)\<lparr>cartStore := cartReducer (cartStore (fst w)) a\<rparr>, snd w @ [DispatchCart a])"

definition dispatchUI :: "ui_action \<Rightarrow> world \<Rightarrow> world" where
  "dispatchUI a w =
     ((fst w)\<lparr>uiStore := uiReducer (uiStore (fst w)) a\<rparr>, snd w @ [DispatchUI a])"

text \<open>
  Modelled from the spec: \<^verbatim>\<open>router.setServerRoute(url, query, params)\<close> of the router,
  which is not among the source files, keeps its three arguments for the page functions.
\<close>

definition setServerRoute :: "string \<Rightarrow> query \<Rightarrow> params \<Rightarrow> world \<Rightarrow> world" where
  "setServerRoute url q ps w =
     ((fst w)\<lparr>serverRoute := Some (url, q, ps)\<rparr>, snd w @ [SetServerRoute url q ps])"

text \<open>\<^verbatim>\<open>{...initialProductState, loading: true, status: "pending"}\<close>\<close>

definition initialPayload :: "product_state \<Rightarrow> product_payload" where
  "initialPayload s0 =
     \<lparr>p_products = Some (products s0),
      p_categories = Some (categories s0),
      p_totalCount = Some (totalCount s0),
      p_currentProduct = Some (currentProduct s0),
      p_relatedProducts = Some (relatedProducts s0),
      p_loading = Some True,
      p_status = Some ''pending'',
      p_error = Some (error s0)\<rparr>"

definition initializeStores :: "env \<Rightarrow> world \<Rightarrow> world" where
  "initializeStores env w =
     dispatchUI HIDE_TOAST
       (dispatchUI CLOSE_CART_MODAL
         (dispatchCart CLEAR_CART
           (dispatchProduct (SETUP (initialPayload (initialProductState env))) w)))"

text \<open>Sequencing of steps that may throw.\<close>

definition and_then :: "error + 'a \<Rightarrow> ('a \<Rightarrow> error + 'b) \<Rightarrow> error + 'b" where
  "and_then m f = (case m of Inl e \<Rightarrow> Inl e | Inr x \<Rightarrow> f x)"

text \<open>
  \<^verbatim>\<open>await Promise.all([a, b])\<close> for two promises that are already running: the pair of
  their values if both are fulfilled, and otherwise the reason of the promise that is
  rejected first. If only one is rejected, that is its reason; if both are, it is the
  reason of the one that settles first.
\<close>

definition promiseAll :: "bool \<Rightarrow> error + 'a \<Rightarrow> error + 'b \<Rightarrow> error + 'a \<times> 'b" where
  "promiseAll secondSettlesFirst a b =
     (case (a, b) of
        (Inr x, Inr y) \<Rightarrow> Inr (x, y)
      | (Inl e, Inr y) \<Rightarrow> Inl e
      | (Inr x, Inl f) \<Rightarrow> Inl f
      | (Inl e, Inl f) \<Rightarrow> Inl (if secondSettlesFirst then f else e))"

text \<open>
  The body of the \<^verbatim>\<open>try\<close> of \<^verbatim>\<open>prefetchProducts\<close> up to the dispatch: both requests are
  started, \<^verbatim>\<open>Promise.all\<close> waits for them, and reading \<^verbatim>\<open>productsResponse.products\<close>
  and \<^verbatim>\<open>productsResponse.pagination.total\<close> may throw.
\<close>

definition productsPayload :: "env \<Rightarrow> query \<Rightarrow> error + product_payload" where
  "productsPayload env q =
     and_then (promiseAll (categoriesSettleFirst env q) (getProducts env q) (getCategories env))
       (\<lambda>(productsResponse, cats).
     and_then (js_get productsResponse ''products'') (\<lambda>ps.
     and_then (js_get productsResponse ''pagination'') (\<lambda>pagination.
     and_then (js_get pagination ''total'') (\<lambda>total.
       Inr \<lparr>p_products = Some ps,
            p_categories = Some cats,
            p_totalCount = Some total,
            p_currentProduct = None,
            p_relatedProducts = None,
            p_loading = Some False,
            p_status = Some ''done'',
            p_error = Some JNull\<rparr>))))"

definition prefetchProducts :: "env \<Rightarrow> query \<Rightarrow> world \<Rightarrow> world" where
  "prefetchProducts env q w =
     (let w1 = emit GetCategories (emit (GetProducts q) w)
      in case productsPayload env q of
           Inr p \<Rightarrow> dispatchProduct (SETUP p) w1
         | Inl e \<Rightarrow>
             dispatchProduct (SET_ERROR (message e))
               (emit (Console InPrefetchProducts e) w1))"

text \<open>
  \<^verbatim>\<open>products.filter((p) => p.productId !== productId)\<close>: reading \<^verbatim>\<open>p.productId\<close>
  may throw; \<open>productId\<close> is a string, so a value is kept unless it is that very string.
\<close>

fun filterRelated :: "string \<Rightarrow> jsval list \<Rightarrow> error + jsval list" where
  "filterRelated productId [] = Inr []"
| "filterRelated productId (p # ps) =
     and_then (js_get p ''productId'') (\<lambda>pid.
     and_then (filterRelated productId ps) (\<lambda>rest.
       Inr (if pid \<noteq> JStr productId then p # rest else rest)))"

definition relatedQuery :: "jsval \<Rightarrow> query" where
  "relatedQuery c2 = [(''category2'', c2), (''limit'', JNum 20), (''page'', JNum 1)]"

text \<open>
  The body of the inner \<^verbatim>\<open>try\<close> of \<^verbatim>\<open>prefetchProductDetail\<close> up to the dispatch. A
  value that is not an array has no \<^verbatim>\<open>filter\<close> method.
\<close>

definition relatedProductsOf :: "env \<Rightarrow> jsval \<Rightarrow> string \<Rightarrow> error + jsval list" where
  "relatedProductsOf env c2 productId =
     and_then (getProducts env (relatedQuery c2)) (\<lambda>relatedResponse.
     and_then (js_get relatedResponse ''products'') (\<lambda>ps.
       case ps of
         JArr xs \<Rightarrow> filterRelated productId xs
       | JUndefined \<Rightarrow> Inl (cannotRead ''undefined'' ''filter'')
       | JNull \<Rightarrow> Inl (cannotRead ''null'' ''filter'')
       | _ \<Rightarrow> Inl (Error ''relatedResponse.products.filter is not a function'')))"

definition prefetchProductDetail :: "env \<Rightarrow> string \<Rightarrow> world \<Rightarrow> world" where
  "prefetchProductDetail env productId w =
     (let w1 = emit (GetProduct productId) w
      in case getProduct env productId of
           Inl e \<Rightarrow>
             dispatchProduct (SET_ERROR (message e)) (emit (Console InPrefetchProductDetail e) w1)
         | Inr product \<Rightarrow>
             (let w2 = dispatchProduct (SET_CURRENT_PRODUCT product) w1
              in case js_get product ''category2'' of
                   Inl e \<Rightarrow>
                     dispatchProduct (SET_ERROR (message e))
                       (emit (Console InPrefetchProductDetail e) w2)
                 | Inr c2 \<Rightarrow>
                     if truthy c2 then
                       (let w3 = emit (GetProducts (relatedQuery c2)) w2
                        in case relatedProductsOf env c2 productId of
                             Inr rel \<Rightarrow> dispatchProduct (SET_RELATED_PRODUCTS (JArr rel)) w3
                           | Inl e \<Rightarrow>
                               dispatchProduct (SET_RELATED_PRODUCTS (JArr []))
                                 (emit (Console InRelatedProducts e) w3))
                     else w2))"

text \<open>\<^verbatim>\<open>url.replace(BASE_URL, "").replace(/\/$/, "") || "/"\<close>\<close>

definition cleanUrl :: "env \<Rightarrow> string \<Rightarrow> string" where
  "cleanUrl env url = js_or (strip_trailing_slash (js_replace (BASE_URL env) [] url)) ''/''"

text \<open>
  \<^verbatim>\<open>if (route.params.id) ... else ...\<close>: the branch of the prefetch (each route pattern
  has at most one parameter, so the first binding of a name is its only one).
\<close>

definition prefetch :: "env \<Rightarrow> route \<Rightarrow> query \<Rightarrow> world \<Rightarrow> world" where
  "prefetch env r q w =
     (case map_of (params r) ''id'' of
        Some i \<Rightarrow> if i \<noteq> [] then prefetchProductDetail env i w else prefetchProducts env q w
      | None \<Rightarrow> prefetchProducts env q w)"

text \<open>
  \<^verbatim>\<open>render(url, query)\<close>, started on the stores as the previous request left them. The
  result is the value of the promise (\<open>Inl\<close>: rejected), the stores afterwards and the
  events of the call.
\<close>

definition render :: "env \<Rightarrow> string \<Rightarrow> query \<Rightarrow> stores \<Rightarrow> (error + string) \<times> world" where
  "render env url q s =
     (let c = cleanUrl env url;
          r = findRoute c (BASE_URL env);
          w1 = setServerRoute c q (params r) (s, []);
          w2 = initializeStores env w1;
          w3 = prefetch env r q w2;
          w4 = emit (Invoke (handler r)) w3
      in case pages env (handler r) (fst w3) of
           Inr html \<Rightarrow> (Inr (js_or html []), w4)
         | Inl e \<Rightarrow>
             (let w5 = emit (Invoke NotFoundPage) (emit (Console InRender e) w4)
              in (pages env NotFoundPage (fst w5), w5)))"

section \<open>Static site generation (static-site-generate.js)\<close>

text \<open>
  The file system as the script uses it: the contents of the files and the set of
  directories. Paths are compared as strings.
\<close>

record filesystem =
  files :: "string \<rightharpoonup> string"
  dirs :: "string set"

definition existsSync :: "filesystem \<Rightarrow> string \<Rightarrow> bool" where
  "existsSync fs p \<longleftrightarrow> files fs p \<noteq> None \<or> p \<in> dirs fs"

definition readFileSync :: "filesystem \<Rightarrow> string \<Rightarrow> error + string" where
  "readFileSync fs p =
     (case files fs p of
        Some c \<Rightarrow> Inr c
      | None \<Rightarrow> Inl (Error (''ENOENT: no such file or directory, open '' @ p)))"

text \<open>The directory of a path: the text before its last slash.\<close>

definition parentDir :: "string \<Rightarrow> string" where
  "parentDir p = rev (drop 1 (dropWhile (\<lambda>c. c \<noteq> CHR ''/'') (rev p)))"

definition writeFileSync :: "string \<Rightarrow> string \<Rightarrow> filesystem \<Rightarrow> error + filesystem" where
  "writeFileSync p c fs =
     (if p \<in> dirs fs then Inl (Error (''EISDIR: illegal operation on a directory, open '' @ p))
      else if parentDir p \<notin> dirs fs
      then Inl (Error (''ENOENT: no such file or directory, open '' @ p))
      else Inr (fs\<lparr>files := (files fs)(p \<mapsto> c)\<rparr>))"

text \<open>The path itself and every prefix of it that ends before a slash.\<close>

definition dirPrefixes :: "string \<Rightarrow> string list" where
  "dirPrefixes p = p # map (\<lambda>k. take k p) (filter (\<lambda>k. p ! k = CHR ''/'') [1 ..< length p])"

text \<open>\<^verbatim>\<open>fs.mkdirSync(p, { recursive: true })\<close>\<close>

definition mkdirSync :: "string \<Rightarrow> filesystem \<Rightarrow> error + filesystem" where
  "mkdirSync p fs =
     (if \<exists>d \<in> set (dirPrefixes p). files fs d \<noteq> None
      then Inl (Error (''EEXIST: file already exists, mkdir '' @ p))
      else Inr (fs\<lparr>dirs := dirs fs \<union> set (dirPrefixes p)\<rparr>))"

text \<open>
  What the script takes from outside: \<^verbatim>\<open>JSON.parse\<close> and \<^verbatim>\<open>JSON.stringify\<close>, its own
  directory \<^verbatim>\<open>__dirname\<close>, and the imported \<^verbatim>\<open>render\<close> with what that one imports.
\<close>

record ssg_env =
  JSON_parse :: "string \<Rightarrow> error + jsval"
  JSON_stringify :: "jsval \<Rightarrow> string"
  dirname :: string
  server :: env

text \<open>
  \<^verbatim>\<open>path.join\<close> of the directory of the script and a relative path, and of a directory
  and a name: the parts are put together with a slash. What \<^verbatim>\<open>path.join\<close> does beyond
  that (it resolves \<^verbatim>\<open>..\<close> and removes doubled slashes) is the same for all the paths
  below as long as a product id is a plain file name.
\<close>

definition join :: "string \<Rightarrow> string \<Rightarrow> string" where
  "join a b = a @ ''/'' @ b"

definition templatePath :: "ssg_env \<Rightarrow> string" where
  "templatePath E = join (dirname E) ''../../dist/vanilla/index.html''"

definition serverBuildPath :: "ssg_env \<Rightarrow> string" where
  "serverBuildPath E = join (dirname E) ''dist/vanilla-ssr/main-server.js''"

definition distDir :: "ssg_env \<Rightarrow> string" where
  "distDir E = join (dirname E) ''../../dist/vanilla''"

definition possiblePaths :: "ssg_env \<Rightarrow> string list" where
  "possiblePaths E =
     [join (dirname E) ''src/mocks/items.json'',
      join (dirname E) ''../src/mocks/items.json'',
      join (dirname E) ''../../packages/vanilla/src/mocks/items.json'']"

text \<open>\<^verbatim>\<open>const BASE_URL = ""\<close> of the script, which \<^verbatim>\<open>generateStaticSite\<close> calls \<^verbatim>\<open>baseUrl\<close>.\<close>

definition BASE_URL_ssg :: string where
  "BASE_URL_ssg = []"

definition initialDataScript :: "ssg_env \<Rightarrow> jsval \<Rightarrow> string" where
  \<open>initialDataScript E initialData =
     ''<script>window.__INITIAL_DATA__ = '' @ JSON_stringify E initialData @ '';</script>''\<close>

text \<open>
  \<^verbatim>\<open>createHtmlTemplate(html, initialData = null)\<close> of the generator: the default takes
  the place of an argument that is \<^verbatim>\<open>undefined\<close>.
\<close>

definition createHtmlTemplate_ssg ::
  "ssg_env \<Rightarrow> filesystem \<Rightarrow> jsval \<Rightarrow> jsval \<Rightarrow> error + string" where
  "createHtmlTemplate_ssg E fs html initialData0 =
     and_then (readFileSync fs (templatePath E)) (\<lambda>template.
       let initialData = (if initialData0 = JUndefined then JNull else initialData0);
           t1 = js_replace ''<!--app-html-->'' (js_to_string html) template;
           t2 = js_replace ''<!--app-head-->'' [] t1
       in Inr (if truthy initialData
               then js_replace ''</body>''
                      (initialDataScript E initialData @ ''\<newline>  </body>'') t2
               else t2))"

text \<open>\<^verbatim>\<open>items.map((item) => item.productId)\<close>\<close>

fun mapProductId :: "jsval list \<Rightarrow> error + jsval list" where
  "mapProductId [] = Inr []"
| "mapProductId (item # rest) =
     and_then (js_get item ''productId'') (\<lambda>i.
     and_then (mapProductId rest) (\<lambda>ids. Inr (i # ids)))"

definition getAllProductIds :: "ssg_env \<Rightarrow> filesystem \<Rightarrow> jsval list" where
  "getAllProductIds E fs =
     (case find (existsSync fs) (possiblePaths E) of
        None \<Rightarrow> []
      | Some itemsPath \<Rightarrow>
          (case and_then (readFileSync fs itemsPath) (\<lambda>text.
                and_then (JSON_parse E text) (\<lambda>items.
                  case items of
                    JArr xs \<Rightarrow> mapProductId xs
                  | _ \<Rightarrow> Inl (Error ''items.map is not a function'')))
           of Inr ids \<Rightarrow> ids | Inl e \<Rightarrow> []))"

text \<open>
  The state of a run: the file system, the stores of the imported server module, the two
  counters, and the URLs that \<^verbatim>\<open>render\<close> was called with, in order.
\<close>

record ssg_state =
  fsys :: filesystem
  app :: stores
  successCount :: nat
  failCount :: nat
  rendered :: "string list"

text \<open>
  \<^verbatim>\<open>const { html, initialData } = await render(url, {})\<close>: the call, and the two
  properties read from the string that the promise resolves with.
\<close>

definition renderDestructured :: "ssg_env \<Rightarrow> string \<Rightarrow> ssg_state \<Rightarrow> (error + jsval \<times> jsval) \<times> ssg_state" where
  "renderDestructured E url st =
     (let (res, w) = render (server E) url [] (app st);
          st1 = st\<lparr>app := fst w, rendered := rendered st @ [url]\<rparr>
      in (and_then res (\<lambda>page.
          and_then (js_get (JStr page) ''html'') (\<lambda>html.
          and_then (js_get (JStr page) ''initialData'') (\<lambda>initialData.
            Inr (html, initialData)))), st1))"

text \<open>
  The \<^verbatim>\<open>try\<close> blocks of the home page and of the 404 page: render, fill the template,
  write the file; an exception is logged and nothing else happens.
\<close>

definition generatePage :: "ssg_env \<Rightarrow> string \<Rightarrow> string \<Rightarrow> ssg_state \<Rightarrow> ssg_state" where
  "generatePage E url target st =
     (let (r, st1) = renderDestructured E url st
      in case and_then r (\<lambda>(html, initialData).
              and_then (createHtmlTemplate_ssg E (fsys st1) html initialData) (\<lambda>pageHtml.
                writeFileSync target pageHtml (fsys st1)))
         of Inr fs' \<Rightarrow> st1\<lparr>fsys := fs'\<rparr>
          | Inl e \<Rightarrow> st1)"

text \<open>
  \<^verbatim>\<open>path.join(distDir, "product", productId)\<close> throws unless the id is a string (the
  message of that TypeError goes on to describe the value received; only its first
  sentence is kept, and nothing reads it but the console).
\<close>

definition productDirOf :: "ssg_env \<Rightarrow> jsval \<Rightarrow> error + string" where
  "productDirOf E productId =
     (case productId of
        JStr i \<Rightarrow> Inr (join (join (distDir E) ''product'') i)
      | _ \<Rightarrow> Inl (Error (''The '' @ [CHR 0x22] @ ''path'' @ [CHR 0x22] @
                         '' argument must be of type string.'')))"

text \<open>The body of the loop over the product ids.\<close>

definition generateProduct :: "ssg_env \<Rightarrow> jsval \<Rightarrow> ssg_state \<Rightarrow> ssg_state" where
  "generateProduct E productId st =
     (let url = BASE_URL_ssg @ ''/product/'' @ js_to_string productId;
          (r, st1) = renderDestructured E url st;
          failed = (\<lambda>fs. st1\<lparr>fsys := fs, failCount := failCount st1 + 1\<rparr>)
      in case and_then r (\<lambda>(html, initialData).
              and_then (productDirOf E productId) (\<lambda>productDir. Inr (html, initialData, productDir)))
         of Inl e \<Rightarrow> failed (fsys st1)
          | Inr (html, initialData, productDir) \<Rightarrow>
              (case (if \<not> existsSync (fsys st1) productDir then mkdirSync productDir (fsys st1)
                     else Inr (fsys st1))
               of Inl e \<Rightarrow> failed (fsys st1)
                | Inr fs1 \<Rightarrow>
                    (case and_then (createHtmlTemplate_ssg E fs1 html initialData) (\<lambda>productHtml.
                            writeFileSync (join productDir ''index.html'') productHtml fs1)
                     of Inl e \<Rightarrow> failed fs1
                      | Inr fs2 \<Rightarrow> st1\<lparr>fsys := fs2, successCount := successCount st1 + 1\<rparr>)))"

fun generateProducts :: "ssg_env \<Rightarrow> jsval list \<Rightarrow> ssg_state \<Rightarrow> ssg_state" where
  "generateProducts E [] st = st"
| "generateProducts E (productId # rest) st = generateProducts E rest (generateProduct E productId st)"

datatype ssg_result = Exited nat | Completed ssg_state

text \<open>
  \<^verbatim>\<open>generateStaticSite()\<close>, started with both counters at zero. The messages on the
  console are left out.
\<close>

definition generateStaticSite :: "ssg_env \<Rightarrow> filesystem \<Rightarrow> stores \<Rightarrow> ssg_result" where
  "generateStaticSite E fs s =
     (if \<not> existsSync fs (serverBuildPath E) then Exited 1
      else if \<not> existsSync fs (distDir E) then Exited 1
      else
        (let st0 = \<lparr>fsys = fs, app = s, successCount = 0, failCount = 0, rendered = []\<rparr>;
             st1 = generatePage E (BASE_URL_ssg @ ''/'') (join (distDir E) ''index.html'') st0;
             productIds = getAllProductIds E (fsys st1);
             st2 = generateProducts E productIds st1;
             st3 = generatePage E (BASE_URL_ssg @ ''/not-found-page'') (join (distDir E) ''404.html'') st2
         in Completed st3))"

section \<open>Notions used in the statements\<close>

text \<open>The four dispatches of \<^verbatim>\<open>initializeStores\<close>, in their order.\<close>

definition resetEvents :: "env \<Rightarrow> event list" where
  "resetEvents env =
     [DispatchProduct (SETUP (initialPayload (initialProductState env))),
      DispatchCart CLEAR_CART,
      DispatchUI CLOSE_CART_MODAL,
      DispatchUI HIDE_TOAST]"

text \<open>
  What the two prefetch functions do: requests to the product API, dispatches to the
  product store, and their own error messages.
\<close>

fun isPrefetchEvent :: "event \<Rightarrow> bool" where
  "isPrefetchEvent (GetProducts q) = True"
| "isPrefetchEvent GetCategories = True"
| "isPrefetchEvent (GetProduct i) = True"
| "isPrefetchEvent (DispatchProduct a) = True"
| "isPrefetchEvent (Console InPrefetchProducts e) = True"
| "isPrefetchEvent (Console InPrefetchProductDetail e) = True"
| "isPrefetchEvent (Console InRelatedProducts e) = True"
| "isPrefetchEvent (Console InRender e) = False"
| "isPrefetchEvent (SetServerRoute u q ps) = False"
| "isPrefetchEvent (DispatchCart a) = False"
| "isPrefetchEvent (DispatchUI a) = False"
| "isPrefetchEvent (Invoke p) = False"

text \<open>A request to the product API.\<close>

fun isRequest :: "event \<Rightarrow> bool" where
  "isRequest (GetProducts q) = True"
| "isRequest GetCategories = True"
| "isRequest (GetProduct i) = True"
| "isRequest e = False"

text \<open>
  The part of \<^verbatim>\<open>render\<close> that follows \<^verbatim>\<open>initializeStores()\<close>, as a function of the
  route and of the stores and events at that point.
\<close>

definition renderAfterInit :: "env \<Rightarrow> route \<Rightarrow> query \<Rightarrow> world \<Rightarrow> (error + string) \<times> world" where
  "renderAfterInit env r q w2 =
     (let w3 = prefetch env r q w2;
          w4 = emit (Invoke (handler r)) w3
      in case pages env (handler r) (fst w3) of
           Inr html \<Rightarrow> (Inr (js_or html []), w4)
         | Inl e \<Rightarrow>
             (let w5 = emit (Invoke NotFoundPage) (emit (Console InRender e) w4)
              in (pages env NotFoundPage (fst w5), w5)))"

text \<open>
  \<open>t\<close> is \<open>s\<close> with its first occurrence of \<open>pat\<close> replaced by \<open>rep\<close>, and \<open>s\<close> itself if
  \<open>pat\<close> does not occur in \<open>s\<close>.
\<close>

definition replaces_first :: "string \<Rightarrow> string \<Rightarrow> string \<Rightarrow> string \<Rightarrow> bool" where
  "replaces_first pat rep s t \<longleftrightarrow>
     (if sublist pat s
      then \<exists>a b. s = a @ pat @ b \<and> (\<forall>a' b'. s = a' @ pat @ b' \<longrightarrow> length a \<le> length a') \<and>
                 t = a @ rep @ b
      else t = s)"

section \<open>Example inputs\<close>

definition example_product_state :: product_state where
  "example_product_state =
     \<lparr>products = JArr [], categories = JObj [], totalCount = JNum 0, currentProduct = JNull,
      relatedProducts = JArr [], loading = True, status = ''idle'', error = JNull\<rparr>"

text \<open>Stores as an earlier request may have left them.\<close>

definition example_stores :: stores where
  "example_stores =
     \<lparr>productStore = example_product_state\<lparr>loading := False, status := ''done'',
        error := JStr ''old error''\<rparr>,
      cartStore = \<lparr>items = [JStr ''left over'']\<rparr>,
      uiStore = \<lparr>cartModalOpen = True, toastVisible = True\<rparr>,
      serverRoute = None\<rparr>"

definition example_pages :: "page \<Rightarrow> stores \<Rightarrow> error + string" where
  "example_pages p s =
     Inr (case p of HomePage \<Rightarrow> ''<main>home</main>''
          | ProductDetailPage \<Rightarrow> ''<main>detail</main>''
          | NotFoundPage \<Rightarrow> ''<main>404</main>'')"

definition example_product :: "string \<Rightarrow> jsval" where
  "example_product i = JObj [(''productId'', JStr i), (''category2'', JStr ''shoes'')]"

text \<open>An API that answers.\<close>

definition example_env :: env where
  "example_env =
     \<lparr>BASE_URL = [],
      initialProductState = example_product_state,
      getProducts = (\<lambda>q. Inr (JObj [(''products'', JArr [example_product ''1'', example_product ''2'']),
                                     (''pagination'', JObj [(''total'', JNum 2)])])),
      getCategories = Inr (JObj []),
      categoriesSettleFirst = (\<lambda>q. False),
      getProduct = (\<lambda>i. Inr (example_product i)),
      pages = example_pages\<rparr>"

text \<open>An API that is down; the request for the categories fails before the other one.\<close>

definition example_env_down :: env where
  "example_env_down =
     example_env\<lparr>getProducts := (\<lambda>q. Inl (Error ''products failed'')),
                 getCategories := Inl (Error ''categories failed''),
                 categoriesSettleFirst := (\<lambda>q. True),
                 getProduct := (\<lambda>i. Inl (Error ''product failed''))\<rparr>"

text \<open>A product without a usable answer, and a list of related products that fails.\<close>

definition example_env_null_product :: env where
  "example_env_null_product = example_env\<lparr>getProduct := (\<lambda>i. Inr JNull)\<rparr>"

definition example_env_related_down :: env where
  "example_env_related_down =
     example_env\<lparr>getProducts := (\<lambda>q. Inl (Error ''products failed''))\<rparr>"

text \<open>Page functions that throw.\<close>

definition example_env_throwing :: env where
  "example_env_throwing = example_env\<lparr>pages := (\<lambda>p s. Inl (Error ''cannot render''))\<rparr>"

text \<open>A detail page that throws, with the other pages intact.\<close>

definition example_env_detail_throwing :: env where
  "example_env_detail_throwing =
     example_env\<lparr>pages := (\<lambda>p s. if p = ProductDetailPage then Inl (Error ''cannot render'')
                                  else example_pages p s)\<rparr>"

definition example_assets :: assets where
  "example_assets = \<lparr>js = ''assets/index-abc.js'', css = ''assets/index-abc.css''\<rparr>"

definition example_ssg_env :: ssg_env where
  "example_ssg_env =
     \<lparr>JSON_parse = (\<lambda>t. Inr (JArr [JObj [(''productId'', JStr ''1'')]])),
      JSON_stringify = (\<lambda>v. ''{}''),
      dirname = ''/repo/packages/vanilla'',
      server = example_env\<rparr>"

definition example_template :: string where
  \<open>example_template =
     ''<head><!--app-head--></head><body><div id="root"><!--app-html--></div></body>''\<close>

definition example_fs :: filesystem where
  "example_fs =
     \<lparr>files = [''/repo/packages/vanilla/dist/vanilla-ssr/main-server.js'' \<mapsto> ''export {}'',
               ''/repo/packages/vanilla/../../dist/vanilla/index.html'' \<mapsto> example_template,
               ''/repo/packages/vanilla/src/mocks/items.json'' \<mapsto> ''[...]''],
      dirs = {''/repo/packages/vanilla/../../dist/vanilla''}\<rparr>"

section \<open>Facts about the string operations\<close>

lemma prefix_drop: "prefix xs ys \<Longrightarrow> ys = xs @ drop (length xs) ys"
  by (auto elim: prefixE)

lemma drop_append_le: "n \<le> length xs \<Longrightarrow> drop n (xs @ ys) = drop n xs @ ys"
  by simp

lemma prefix_append_short: "prefix xs (ys @ zs) \<Longrightarrow> length xs \<le> length ys \<Longrightarrow> prefix xs ys"
  by (auto simp: prefix_append)

lemma split_first_Some: "split_first pat s = Some (a, b) \<Longrightarrow> s = a @ pat @ b"
proof (induction s arbitrary: a)
  case Nil
  then show ?case by (simp split: if_splits)
next
  case (Cons c cs)
  show ?case
  proof (cases "prefix pat (c # cs)")
    case True
    with Cons.prems have "a = []" "b = drop (length pat) (c # cs)" by simp_all
    with prefix_drop [OF True] show ?thesis by simp
  next
    case False
    with Cons.prems obtain a0 where "split_first pat cs = Some (a0, b)" "a = c # a0"
      by (auto split: prod.splits)
    with Cons.IH show ?thesis by simp
  qed
qed

lemma split_first_least:
  "split_first pat s = Some (a, b) \<Longrightarrow> s = a' @ pat @ b' \<Longrightarrow> length a \<le> length a'"
proof (induction s arbitrary: a a')
  case Nil
  then show ?case by (simp split: if_splits)
next
  case (Cons c cs)
  show ?case
  proof (cases "prefix pat (c # cs)")
    case True
    with Cons.prems(1) have "a = []" by simp
    then show ?thesis by simp
  next
    case False
    with Cons.prems(1) obtain a0 where a0: "split_first pat cs = Some (a0, b)" "a = c # a0"
      by (auto split: prod.splits)
    from False Cons.prems(2) have "a' \<noteq> []" by auto
    with Cons.prems(2) obtain a1 where a1: "a' = c # a1" "cs = a1 @ pat @ b'"
      by (cases a') auto
    from Cons.IH [OF a0(1) a1(2)] a0(2) a1(1) show ?thesis by simp
  qed
qed

lemma split_first_None: "split_first pat s = None \<longleftrightarrow> \<not> sublist pat s"
proof (induction s)
  case Nil
  then show ?case by simp
next
  case (Cons c cs)
  then show ?case by (simp add: sublist_Cons_right)
qed

lemma split_first_append:
  "split_first pat s = Some (a, b) \<Longrightarrow> split_first pat (s @ z) = Some (a, b @ z)"
proof (induction s arbitrary: a)
  case Nil
  then show ?case by (cases z) (simp_all split: if_splits)
next
  case (Cons c cs)
  show ?case
  proof (cases "prefix pat (c # cs)")
    case True
    then have len: "length pat \<le> length (c # cs)" by (rule prefix_length_le)
    from True have pre: "prefix pat ((c # cs) @ z)" by (rule prefix_prefix)
    from len have "drop (length pat) ((c # cs) @ z) = drop (length pat) (c # cs) @ z"
      by (rule drop_append_le)
    moreover from True Cons.prems have "a = []" "b = drop (length pat) (c # cs)" by simp_all
    moreover from pre have "split_first pat ((c # cs) @ z)
        = Some ([], drop (length pat) ((c # cs) @ z))" by simp
    ultimately show ?thesis by simp
  next
    case False
    with Cons.prems obtain a0 where a0: "split_first pat cs = Some (a0, b)" "a = c # a0"
      by (auto split: prod.splits)
    from split_first_Some [OF a0(1)] have "length pat \<le> length cs" by simp
    then have "length pat \<le> length (c # cs)" by simp
    with False have "\<not> prefix pat ((c # cs) @ z)"
      by (blast dest: prefix_append_short)
    with Cons.IH [OF a0(1)] a0(2) show ?thesis by simp
  qed
qed

lemma getSubstitution_plain: "CHR ''$'' \<notin> set rep \<Longrightarrow> getSubstitution m b a rep = rep"
  by (induction m b a rep rule: getSubstitution.induct) auto

lemma js_replace_empty: "js_replace [] [] s = s"
  by (cases s) (simp_all add: js_replace_def)

lemma js_replace_absent: "\<not> sublist pat s \<Longrightarrow> js_replace pat rep s = s"
  by (simp add: js_replace_def split_first_None [symmetric])

lemma before_query_append: "before_query (u @ CHR ''?'' # q) = before_query u"
  unfolding before_query_def by (induction u) auto

lemma before_query_id: "CHR ''?'' \<notin> set u \<Longrightarrow> before_query u = u"
  unfolding before_query_def by (induction u) auto

lemma before_query_slash:
  "CHR ''?'' \<in> set u \<Longrightarrow> before_query (u @ ''/'') = before_query u"
  unfolding before_query_def by (induction u) auto

section \<open>Facts about route matching\<close>

lemma first_some_None: "first_some f xs = None \<longleftrightarrow> (\<forall>x\<in>set xs. f x = None)"
  by (induction xs) (auto split: option.splits)

lemma takeWhile_shorter: "x \<in> set s \<Longrightarrow> \<not> P x \<Longrightarrow> length (takeWhile P s) < length s"
  by (induction s) auto

lemma match_param_last:
  "match_tokens [Param n] s = (if s \<noteq> [] \<and> CHR ''/'' \<notin> set s then Some [s] else None)"
proof (cases "s \<noteq> [] \<and> CHR ''/'' \<notin> set s")
  case True
  then have tw: "takeWhile (\<lambda>c. c \<noteq> CHR ''/'') s = s"
    by (auto simp: takeWhile_eq_all_conv)
  let ?F = "\<lambda>k. map_option (\<lambda>caps. take k s # caps) (match_tokens [] (drop k s))"
  have up: "rev [1 ..< Suc (length s)] = length s # rev [1 ..< length s]"
    using True by (cases s) auto
  have "match_tokens [Param n] s = first_some ?F (rev [1 ..< Suc (length s)])"
    by (simp only: match_tokens.simps tw)
  also have "\<dots> = first_some ?F (length s # rev [1 ..< length s])"
    by (simp only: up)
  also have "\<dots> = Some [s]"
    by simp
  finally show ?thesis using True by simp
next
  case False
  have "\<forall>k\<in>set (rev [1 ..< Suc (length (takeWhile (\<lambda>c. c \<noteq> CHR ''/'') s))]). drop k s \<noteq> []"
  proof (cases "s = []")
    case True then show ?thesis by simp
  next
    case nonempty: False
    with False have "CHR ''/'' \<in> set s" by simp
    then have "length (takeWhile (\<lambda>c. c \<noteq> CHR ''/'') s) < length s"
      by (rule takeWhile_shorter) simp
    then show ?thesis by auto
  qed
  then have "first_some
       (\<lambda>k. map_option (\<lambda>caps. take k s # caps) (match_tokens [] (drop k s)))
       (rev [1 ..< Suc (length (takeWhile (\<lambda>c. c \<noteq> CHR ''/'') s))]) = None"
    unfolding first_some_None by simp
  then show ?thesis using False by simp
qed

lemma compile_home: "compile_pattern ''/'' = [Lit CHR ''/'']"
  by simp

lemma compile_product:
  "compile_pattern ''/product/:id'' = map Lit ''/product/'' @ [Param ''id'']"
  by (simp add: is_word_char_def)

lemma names_product: "paramNames (compile_pattern ''/product/:id'') = [''id'']"
  by (simp add: is_word_char_def)

lemma match_lits:
  "match_tokens (map Lit l @ ts) s =
     (if prefix l s then match_tokens ts (drop (length l) s) else None)"
  by (induction l arbitrary: s) (auto split: list.splits)

lemma match_home: "match_tokens (compile_pattern ''/'') p = (if p = ''/'' then Some [] else None)"
  by (auto simp: compile_home split: list.splits)

lemma match_product:
  "match_tokens (compile_pattern ''/product/:id'') p =
     (if prefix ''/product/'' p \<and> drop 9 p \<noteq> [] \<and> CHR ''/'' \<notin> set (drop 9 p)
      then Some [drop 9 p] else None)"
proof -
  have len: "length ''/product/'' = 9" by simp
  show ?thesis
    unfolding compile_product match_lits match_param_last len by simp
qed

lemma match_routes_cases:
  "match_routes routes p =
     (if p = ''/'' then \<lparr>handler = HomePage, params = []\<rparr>
      else if prefix ''/product/'' p \<and> drop 9 p \<noteq> [] \<and> CHR ''/'' \<notin> set (drop 9 p)
      then \<lparr>handler = ProductDetailPage, params = [(''id'', drop 9 p)]\<rparr>
      else \<lparr>handler = NotFoundPage, params = []\<rparr>)"
  unfolding routes_def
  by (simp add: match_home match_product names_product del: compile_pattern.simps)

lemma product_path_iff:
  "(prefix ''/product/'' p \<and> drop 9 p \<noteq> [] \<and> CHR ''/'' \<notin> set (drop 9 p)) \<longleftrightarrow>
   (\<exists>i. p = ''/product/'' @ i \<and> i \<noteq> [] \<and> CHR ''/'' \<notin> set i)"
proof
  assume l: "prefix ''/product/'' p \<and> drop 9 p \<noteq> [] \<and> CHR ''/'' \<notin> set (drop 9 p)"
  then obtain zs where zs: "p = ''/product/'' @ zs" by (auto elim: prefixE)
  then have "drop 9 p = zs" by simp
  with zs have "p = ''/product/'' @ drop 9 p" by simp
  with l show "\<exists>i. p = ''/product/'' @ i \<and> i \<noteq> [] \<and> CHR ''/'' \<notin> set i" by blast
next
  assume "\<exists>i. p = ''/product/'' @ i \<and> i \<noteq> [] \<and> CHR ''/'' \<notin> set i"
  then obtain i where "p = ''/product/'' @ i" "i \<noteq> []" "CHR ''/'' \<notin> set i" by blast
  then show "prefix ''/product/'' p \<and> drop 9 p \<noteq> [] \<and> CHR ''/'' \<notin> set (drop 9 p)"
    by simp
qed

lemma cleanPath_empty_base: "cleanPath u [] = js_or (strip_trailing_slash (before_query u)) ''/''"
  by (simp add: cleanPath_def js_replace_empty)

lemma strip_trailing_slash_snoc: "strip_trailing_slash (s @ ''/'') = s"
  by (simp add: strip_trailing_slash_def)

section \<open>findRoute\<close>

text \<open>
  C4 (amended). \<^verbatim>\<open>findRoute(url, baseUrl)\<close> decides on the cleaned path of the URL (the
  text before the first question mark, without the first occurrence of the base, without
  one trailing slash, and \<^verbatim>\<open>/\<close> if nothing is left): the cleaned path \<^verbatim>\<open>/\<close> gives
  \<open>HomePage\<close> with empty params; a cleaned path \<^verbatim>\<open>/product/<id>\<close> with a nonempty
  \<open>id\<close> that contains no slash gives \<open>ProductDetailPage\<close> with \<open>params.id = id\<close>;
  every other cleaned path gives \<open>NotFoundPage\<close> with empty params.
\<close>

theorem findRoute_by_clean_path:
  "(cleanPath url b = ''/'' \<longrightarrow> findRoute url b = \<lparr>handler = HomePage, params = []\<rparr>) \<and>
   (\<forall>i. cleanPath url b = ''/product/'' @ i \<and> i \<noteq> [] \<and> CHR ''/'' \<notin> set i \<longrightarrow>
        findRoute url b = \<lparr>handler = ProductDetailPage, params = [(''id'', i)]\<rparr>) \<and>
   (cleanPath url b \<noteq> ''/'' \<and>
    \<not> (\<exists>i. cleanPath url b = ''/product/'' @ i \<and> i \<noteq> [] \<and> CHR ''/'' \<notin> set i) \<longrightarrow>
        findRoute url b = \<lparr>handler = NotFoundPage, params = []\<rparr>)"
proof (intro conjI allI impI)
  assume "cleanPath url b = ''/''"
  then show "findRoute url b = \<lparr>handler = HomePage, params = []\<rparr>"
    by (simp add: findRoute_def match_routes_cases)
next
  fix i
  assume a: "cleanPath url b = ''/product/'' @ i \<and> i \<noteq> [] \<and> CHR ''/'' \<notin> set i"
  then have "cleanPath url b \<noteq> ''/''" by auto
  moreover from a have "drop 9 (cleanPath url b) = i" by simp
  moreover from a have "prefix ''/product/'' (cleanPath url b)" by simp
  ultimately show "findRoute url b = \<lparr>handler = ProductDetailPage, params = [(''id'', i)]\<rparr>"
    using a unfolding findRoute_def match_routes_cases by simp
next
  assume a: "cleanPath url b \<noteq> ''/'' \<and>
    \<not> (\<exists>i. cleanPath url b = ''/product/'' @ i \<and> i \<noteq> [] \<and> CHR ''/'' \<notin> set i)"
  then have "\<not> (prefix ''/product/'' (cleanPath url b) \<and> drop 9 (cleanPath url b) \<noteq> [] \<and>
     CHR ''/'' \<notin> set (drop 9 (cleanPath url b)))"
    unfolding product_path_iff by simp
  with a show "findRoute url b = \<lparr>handler = NotFoundPage, params = []\<rparr>"
    unfolding findRoute_def match_routes_cases by simp
qed

theorem findRoute_by_clean_path_witness:
  "cleanPath ''/'' [] = ''/'' \<and>
   findRoute ''/'' [] = \<lparr>handler = HomePage, params = []\<rparr> \<and>
   cleanPath ''/product/5/?tab=1'' [] = ''/product/'' @ ''5'' \<and>
   findRoute ''/product/5/?tab=1'' [] = \<lparr>handler = ProductDetailPage, params = [(''id'', ''5'')]\<rparr> \<and>
   cleanPath ''/cart'' [] = ''/cart'' \<and>
   findRoute ''/cart'' [] = \<lparr>handler = NotFoundPage, params = []\<rparr>"
proof -
  have c1: "cleanPath ''/'' [] = ''/''"
    by (simp add: cleanPath_empty_base before_query_def strip_trailing_slash_def js_or_def)
  have c2: "cleanPath ''/product/5/?tab=1'' [] = ''/product/'' @ ''5''"
    by (simp add: cleanPath_empty_base before_query_def strip_trailing_slash_def js_or_def)
  have c3: "cleanPath ''/cart'' [] = ''/cart''"
    by (simp add: cleanPath_empty_base before_query_def strip_trailing_slash_def js_or_def)
  have n3: "\<not> (\<exists>i. cleanPath ''/cart'' [] = ''/product/'' @ i \<and> i \<noteq> [] \<and> CHR ''/'' \<notin> set i)"
    unfolding c3 by simp
  from findRoute_by_clean_path [of "''/''" "[]"] c1
  have r1: "findRoute ''/'' [] = \<lparr>handler = HomePage, params = []\<rparr>" by blast
  from findRoute_by_clean_path [of "''/product/5/?tab=1''" "[]"] c2
  have r2: "findRoute ''/product/5/?tab=1'' []
      = \<lparr>handler = ProductDetailPage, params = [(''id'', ''5'')]\<rparr>" by simp
  from findRoute_by_clean_path [of "''/cart''" "[]"] n3 c3
  have r3: "findRoute ''/cart'' [] = \<lparr>handler = NotFoundPage, params = []\<rparr>" by simp
  from c1 c2 c3 r1 r2 r3 show ?thesis by blast
qed

text \<open>
  C4, as stated, fails: the path \<^verbatim>\<open>/product/5/\<close> is not \<^verbatim>\<open>/\<close>, and what follows
  \<^verbatim>\<open>/product/\<close> in it contains a slash, so it is one of the other paths; it is mapped to
  \<open>ProductDetailPage\<close> with \<open>id = 5\<close>, not to \<open>NotFoundPage\<close>.
\<close>

theorem findRoute_trailing_slash_counterexample:
  "''/product/5/'' \<noteq> ''/'' \<and>
   ''/product/5/'' = ''/product/'' @ ''5/'' \<and> CHR ''/'' \<in> set ''5/'' \<and>
   findRoute ''/product/5/'' [] = \<lparr>handler = ProductDetailPage, params = [(''id'', ''5'')]\<rparr>"
  by (simp add: findRoute_def match_routes_cases cleanPath_empty_base before_query_def
        strip_trailing_slash_def js_or_def)

text \<open>
  C9 (amended). A query suffix never changes the route. A slash added to a URL \<open>u\<close> that
  does not end in a slash does not change the route when the base is empty, and more
  generally when \<open>u\<close> contains a question mark, or the base does not occur in \<open>u\<close> followed
  by the slash, or the base occurs in \<open>u\<close> and \<open>u\<close> without the first occurrence of the
  base does not end in a slash. A path that is empty after the stripping is treated as
  \<^verbatim>\<open>/\<close>.
\<close>

theorem findRoute_normalizes:
  "findRoute (u @ ''?'' @ q) b = findRoute u b \<and>
   ((u = [] \<or> last u \<noteq> CHR ''/'') \<longrightarrow> findRoute (u @ ''/'') [] = findRoute u []) \<and>
   ((u = [] \<or> last u \<noteq> CHR ''/'') \<and>
    (CHR ''?'' \<in> set u \<or> \<not> sublist b (u @ ''/'') \<or>
     (sublist b u \<and> (js_replace b [] u = [] \<or> last (js_replace b [] u) \<noteq> CHR ''/'')))
      \<longrightarrow> findRoute (u @ ''/'') b = findRoute u b) \<and>
   (strip_trailing_slash (js_replace b [] (before_query u)) = []
      \<longrightarrow> findRoute u b = \<lparr>handler = HomePage, params = []\<rparr> \<and>
          findRoute u b = findRoute ''/'' [])"
proof -
  have home: "findRoute ''/'' [] = \<lparr>handler = HomePage, params = []\<rparr>"
    by (simp add: findRoute_def match_routes_cases cleanPath_empty_base before_query_def
          strip_trailing_slash_def js_or_def)
  have q: "findRoute (u @ ''?'' @ q) b = findRoute u b"
    by (simp add: findRoute_def cleanPath_def before_query_append)
  have general: "findRoute (u @ ''/'') b' = findRoute u b'"
    if noslash: "u = [] \<or> last u \<noteq> CHR ''/''"
    and side: "CHR ''?'' \<in> set u \<or> \<not> sublist b' (u @ ''/'') \<or>
      (sublist b' u \<and> (js_replace b' [] u = [] \<or> last (js_replace b' [] u) \<noteq> CHR ''/''))"
    for b'
  proof (cases "CHR ''?'' \<in> set u")
    case True
    then show ?thesis
      by (simp add: findRoute_def cleanPath_def before_query_slash)
  next
    case False
    then have bq: "before_query u = u" "before_query (u @ ''/'') = u @ ''/''"
      by (simp_all add: before_query_id)
    from noslash have su: "strip_trailing_slash u = u"
      by (auto simp: strip_trailing_slash_def)
    from False side consider
        (absent) "\<not> sublist b' (u @ ''/'')"
      | (present) "sublist b' u"
          "js_replace b' [] u = [] \<or> last (js_replace b' [] u) \<noteq> CHR ''/''"
      by blast
    then have "strip_trailing_slash (js_replace b' [] (u @ ''/''))
        = strip_trailing_slash (js_replace b' [] u)"
    proof cases
      case absent
      then have "\<not> sublist b' u" by (auto simp: sublist_append)
      with absent show ?thesis
        by (simp add: js_replace_absent su strip_trailing_slash_snoc del: append.simps)
    next
      case present
      from present(1) obtain x y where xy: "split_first b' u = Some (x, y)"
        using split_first_None [of b' u] by (cases "split_first b' u") auto
      then have r: "js_replace b' [] u = x @ y"
        by (simp add: js_replace_def)
      from split_first_append [OF xy, of "''/''"]
      have r': "js_replace b' [] (u @ ''/'') = (x @ y) @ ''/''"
        by (simp add: js_replace_def)
      from present(2) r have "strip_trailing_slash (x @ y) = x @ y"
        by (auto simp: strip_trailing_slash_def)
      then show ?thesis
        unfolding r r' strip_trailing_slash_snoc by simp
    qed
    then show ?thesis
      by (simp only: findRoute_def cleanPath_def bq)
  qed
  have empty_base: "findRoute (u @ ''/'') [] = findRoute u []"
    if noslash: "u = [] \<or> last u \<noteq> CHR ''/''"
  proof -
    from noslash have "js_replace [] [] u = [] \<or> last (js_replace [] [] u) \<noteq> CHR ''/''"
      by (simp add: js_replace_empty)
    then show ?thesis
      using general [OF noslash, of "[]"] by simp
  qed
  have empty: "findRoute u b = \<lparr>handler = HomePage, params = []\<rparr> \<and>
      findRoute u b = findRoute ''/'' []"
    if "strip_trailing_slash (js_replace b [] (before_query u)) = []"
    using that home by (simp add: findRoute_def cleanPath_def js_or_def match_routes_cases)
  from q general [of b] empty_base empty show ?thesis by blast
qed

theorem findRoute_normalizes_witness:
  "findRoute (''/product/7'' @ ''?'' @ ''page=2'') ''/app'' = findRoute ''/product/7'' ''/app'' \<and>
   (''/product/7'' = [] \<or> last ''/product/7'' \<noteq> CHR ''/'') \<and>
   findRoute (''/product/7'' @ ''/'') [] = findRoute ''/product/7'' [] \<and>
   (''/app/product/7'' = [] \<or> last ''/app/product/7'' \<noteq> CHR ''/'') \<and>
   sublist ''/app'' ''/app/product/7'' \<and>
   last (js_replace ''/app'' [] ''/app/product/7'') \<noteq> CHR ''/'' \<and>
   findRoute (''/app/product/7'' @ ''/'') ''/app'' = findRoute ''/app/product/7'' ''/app'' \<and>
   strip_trailing_slash (js_replace ''/app'' [] (before_query ''/app/?sort=asc'')) = [] \<and>
   findRoute ''/app/?sort=asc'' ''/app'' = \<lparr>handler = HomePage, params = []\<rparr>"
proof -
  have s: "sublist ''/app'' ''/app/product/7''"
    by (simp add: sublist_Cons_right)
  have l: "last (js_replace ''/app'' [] ''/app/product/7'') \<noteq> CHR ''/''"
    by (simp add: js_replace_def)
  have e: "strip_trailing_slash (js_replace ''/app'' [] (before_query ''/app/?sort=asc'')) = []"
    by (simp add: js_replace_def before_query_def strip_trailing_slash_def)
  from findRoute_normalizes [of "''/product/7''" "''page=2''" "''/app''"]
  have w1: "findRoute (''/product/7'' @ ''?'' @ ''page=2'') ''/app'' = findRoute ''/product/7'' ''/app''"
    and w2: "findRoute (''/product/7'' @ ''/'') [] = findRoute ''/product/7'' []"
    by simp_all
  from findRoute_normalizes [of "''/app/product/7''" "[]" "''/app''"] s l
  have w3: "findRoute (''/app/product/7'' @ ''/'') ''/app'' = findRoute ''/app/product/7'' ''/app''"
    by simp
  from findRoute_normalizes [of "''/app/?sort=asc''" "[]" "''/app''"] e
  have w4: "findRoute ''/app/?sort=asc'' ''/app'' = \<lparr>handler = HomePage, params = []\<rparr>"
    by blast
  from s l e w1 w2 w3 w4 show ?thesis by simp
qed

text \<open>
  C9, as stated, fails for a base that ends in a slash: \<^verbatim>\<open>/base\<close> does not end in a
  slash, \<^verbatim>\<open>/base/\<close> with the base \<^verbatim>\<open>/base/\<close> is the home page, and \<^verbatim>\<open>/base\<close> with the
  same base is not found.
\<close>

theorem findRoute_slash_counterexample:
  "last ''/base'' \<noteq> CHR ''/'' \<and>
   findRoute (''/base'' @ ''/'') ''/base/'' = \<lparr>handler = HomePage, params = []\<rparr> \<and>
   findRoute ''/base'' ''/base/'' = \<lparr>handler = NotFoundPage, params = []\<rparr>"
  by (simp add: findRoute_def match_routes_cases cleanPath_def js_replace_def before_query_def
        strip_trailing_slash_def js_or_def)

section \<open>The page template of the server\<close>

lemma js_trim_leading: "is_js_space c \<Longrightarrow> js_trim (c # s) = js_trim s"
  by (simp add: js_trim_def)

lemma dropWhile_hd: "s \<noteq> [] \<Longrightarrow> \<not> P (hd s) \<Longrightarrow> dropWhile P s = s"
  by (cases s) auto

lemma js_trim_core:
  assumes "s \<noteq> []" and "\<not> is_js_space (hd s)" and "\<not> is_js_space (last s)"
  shows "js_trim s = s"
proof -
  from assms(1,2) have "dropWhile is_js_space s = s" by (rule dropWhile_hd)
  moreover from assms(1,3) have "dropWhile is_js_space (rev s) = rev s"
    by (intro dropWhile_hd) (simp_all add: hd_rev)
  ultimately show ?thesis by (simp add: js_trim_def)
qed

lemma createHtmlTemplate_eq:
  \<open>createHtmlTemplate html baseUrl isProd as =
     template_head @
     ''<link rel="stylesheet" href="'' @ baseUrl @ css as @ ''">'' @
     template_config @
     ''<div id="root">'' @ html @ ''</div>'' @
     ''\<newline>    <script type="module" src="'' @ baseUrl @ js as @ ''"></script>'' @
     ''\<newline>  </body>\<newline></html>''\<close>
proof -
  let ?rest = \<open>''<link rel="stylesheet" href="'' @ baseUrl @ css as @ ''">'' @
     template_config @
     ''<div id="root">'' @ html @ ''</div>'' @
     ''\<newline>    <script type="module" src="'' @ baseUrl @ js as @ ''"></script>'' @
     ''\<newline>  </body>\<newline></html>''\<close>
  have sp: "is_js_space CHR 0x0A" by (simp add: is_js_space_def)
  have t: "template_head \<noteq> []" "hd template_head = CHR ''<''"
    by (simp_all add: template_head_def)
  have ne: "template_head @ ?rest \<noteq> []" using t by simp
  have "hd (template_head @ ?rest) = CHR ''<''"
    using t by (simp add: hd_append)
  then have h: "\<not> is_js_space (hd (template_head @ ?rest))"
    by (simp add: is_js_space_def)
  have l: "\<not> is_js_space (last (template_head @ ?rest))"
    by (simp add: is_js_space_def)
  have "createHtmlTemplate html baseUrl isProd as = js_trim (CHR 0x0A # (template_head @ ?rest))"
    by (simp add: createHtmlTemplate_def)
  also have "\<dots> = js_trim (template_head @ ?rest)"
    using sp by (rule js_trim_leading)
  also have "\<dots> = template_head @ ?rest"
    using ne h l by (rule js_trim_core)
  finally show ?thesis .
qed

text \<open>
  C8. The templating function of the server is deterministic: two calls with equal
  \<open>html\<close>, \<open>baseUrl\<close>, \<open>isProd\<close> and \<open>assets\<close> return the same string. (The function reads
  nothing but its arguments, and of those not \<open>isProd\<close>.)
\<close>

theorem createHtmlTemplate_deterministic:
  "html = html' \<Longrightarrow> baseUrl = baseUrl' \<Longrightarrow> isProd = isProd' \<Longrightarrow> as = as' \<Longrightarrow>
   createHtmlTemplate html baseUrl isProd as = createHtmlTemplate html' baseUrl' isProd' as'"
  by simp

theorem createHtmlTemplate_deterministic_witness:
  "createHtmlTemplate ''<main>home</main>'' ''/'' True example_assets =
   createHtmlTemplate ''<main>home</main>'' ''/'' True example_assets"
  using createHtmlTemplate_deterministic
    [where html = "''<main>home</main>''" and html' = "''<main>home</main>''"
       and baseUrl = "''/''" and baseUrl' = "''/''" and isProd = True and isProd' = True
       and as = example_assets and as' = example_assets]
  by simp

lemma createHtmlTemplate_ignores_isProd:
  "createHtmlTemplate html baseUrl isProd as = createHtmlTemplate html baseUrl isProd' as"
  by (simp add: createHtmlTemplate_def)

section \<open>The SSR middleware\<close>

text \<open>
  C6 (amended). For every request on which \<^verbatim>\<open>render\<close> resolves, the middleware sends
  the response with Content-Type \<^verbatim>\<open>text/html\<close>; its body is the full template, in which
  the string returned by \<^verbatim>\<open>render\<close> stands inside the root element, and the style sheet
  and script paths are the base URL followed by the configured asset file names. For
  every request on which \<^verbatim>\<open>render\<close> rejects, the middleware sends nothing: it logs the
  error (in production only its message) and passes it to the next middleware.
\<close>

theorem ssrMiddleware_sends_template:
  \<open>(\<forall>html. rendering (js_or (js_replace base ''/'' (originalUrl req)) ''/'') (query req) = Inr html \<longrightarrow>
      ssrMiddleware rendering base production assetFiles req =
        ([], Sent [(''Content-Type'', ''text/html'')]
           (template_head @
            ''<link rel="stylesheet" href="'' @ base @ css assetFiles @ ''">'' @
            template_config @
            ''<div id="root">'' @ html @ ''</div>'' @
            ''\<newline>    <script type="module" src="'' @ base @ js assetFiles @ ''"></script>'' @
            ''\<newline>  </body>\<newline></html>''))) \<and>
   (\<forall>e. rendering (js_or (js_replace base ''/'' (originalUrl req)) ''/'') (query req) = Inl e \<longrightarrow>
      ssrMiddleware rendering base production assetFiles req =
        ([if production then ConsoleErrorMessage ''SSR Error:'' (message e)
          else ConsoleError ''SSR Error:'' e],
         Next e))\<close>
  by (simp add: ssrMiddleware_def createHtmlTemplate_eq)

theorem ssrMiddleware_sends_template_witness:
  \<open>fst (render example_env
          (js_or (js_replace ''/shop/'' ''/'' (originalUrl \<lparr>originalUrl = ''/shop/product/1'', query = []\<rparr>)) ''/'')
          (query \<lparr>originalUrl = ''/shop/product/1'', query = []\<rparr>) example_stores)
     = Inr ''<main>detail</main>'' \<and>
   ssrMiddleware (\<lambda>url q. fst (render example_env url q example_stores)) ''/shop/'' True
       example_assets \<lparr>originalUrl = ''/shop/product/1'', query = []\<rparr> =
     ([], Sent [(''Content-Type'', ''text/html'')]
        (template_head @
         ''<link rel="stylesheet" href="'' @ ''/shop/'' @ css example_assets @ ''">'' @
         template_config @
         ''<div id="root">'' @ ''<main>detail</main>'' @ ''</div>'' @
         ''\<newline>    <script type="module" src="'' @ ''/shop/'' @ js example_assets @ ''"></script>'' @
         ''\<newline>  </body>\<newline></html>'')) \<and>
   fst (render example_env_throwing
          (js_or (js_replace ''/shop/'' ''/'' (originalUrl \<lparr>originalUrl = ''/shop/product/1'', query = []\<rparr>)) ''/'')
          (query \<lparr>originalUrl = ''/shop/product/1'', query = []\<rparr>) example_stores)
     = Inl (Error ''cannot render'') \<and>
   ssrMiddleware (\<lambda>url q. fst (render example_env_throwing url q example_stores)) ''/shop/'' True
       example_assets \<lparr>originalUrl = ''/shop/product/1'', query = []\<rparr> =
     ([ConsoleErrorMessage ''SSR Error:'' ''cannot render''], Next (Error ''cannot render''))\<close>
proof -
  let ?req = "\<lparr>originalUrl = ''/shop/product/1'', query = []\<rparr>"
  have u: "js_or (js_replace ''/shop/'' ''/'' (originalUrl ?req)) ''/'' = ''/product/1''"
    by (simp add: js_replace_def js_or_def)
  have r: "fst (render example_env ''/product/1'' [] example_stores) = Inr ''<main>detail</main>''"
    by code_simp
  have t: "fst (render example_env_throwing ''/product/1'' [] example_stores)
      = Inl (Error ''cannot render'')"
    by code_simp
  from ssrMiddleware_sends_template
    [where rendering = "\<lambda>url q. fst (render example_env url q example_stores)"
       and base = "''/shop/''" and req = ?req
       and production = True and assetFiles = example_assets] r u
  have sent: \<open>ssrMiddleware (\<lambda>url q. fst (render example_env url q example_stores)) ''/shop/'' True
       example_assets ?req =
     ([], Sent [(''Content-Type'', ''text/html'')]
        (template_head @
         ''<link rel="stylesheet" href="'' @ ''/shop/'' @ css example_assets @ ''">'' @
         template_config @
         ''<div id="root">'' @ ''<main>detail</main>'' @ ''</div>'' @
         ''\<newline>    <script type="module" src="'' @ ''/shop/'' @ js example_assets @ ''"></script>'' @
         ''\<newline>  </body>\<newline></html>''))\<close>
    by simp
  from ssrMiddleware_sends_template
    [where rendering = "\<lambda>url q. fst (render example_env_throwing url q example_stores)"
       and base = "''/shop/''" and req = ?req
       and production = True and assetFiles = example_assets] t u
  have passed: "ssrMiddleware (\<lambda>url q. fst (render example_env_throwing url q example_stores))
       ''/shop/'' True example_assets ?req =
     ([ConsoleErrorMessage ''SSR Error:'' ''cannot render''], Next (Error ''cannot render''))"
    by simp
  from r t u sent passed show ?thesis by simp
qed

text \<open>
  C6, as stated, fails when \<^verbatim>\<open>render\<close> rejects, which it does when the page function
  and \<open>NotFoundPage\<close> after it throw: no response is sent by the middleware, the error goes
  to the next middleware.
\<close>

theorem ssrMiddleware_rejection_counterexample:
  "ssrMiddleware (\<lambda>url q. fst (render example_env_throwing url q example_stores)) ''/'' False
       example_assets \<lparr>originalUrl = ''/'', query = []\<rparr> =
     ([ConsoleError ''SSR Error:'' (Error ''cannot render'')], Next (Error ''cannot render''))"
  by code_simp

section \<open>Facts about the steps of render\<close>

lemma initializeStores_eq:
  "initializeStores env w =
     ((fst w)\<lparr>productStore := (initialProductState env)\<lparr>loading := True, status := ''pending''\<rparr>,
              cartStore := (cartStore (fst w))\<lparr>items := []\<rparr>,
              uiStore := (uiStore (fst w))\<lparr>cartModalOpen := False, toastVisible := False\<rparr>\<rparr>,
      snd w @ resetEvents env)"
  by (simp add: initializeStores_def dispatchProduct_def dispatchCart_def dispatchUI_def
        resetEvents_def initialPayload_def or_old_def)

lemma prefetchProducts_events:
  "\<exists>pre. snd (prefetchProducts env q w) = snd w @ pre \<and> pre \<noteq> [] \<and>
         isRequest (hd pre) \<and> (\<forall>e\<in>set pre. isPrefetchEvent e) \<and>
         (\<exists>a. last pre = DispatchProduct a)"
  by (auto simp: prefetchProducts_def Let_def emit_def dispatchProduct_def split: sum.splits)

lemma prefetchProductDetail_events:
  "\<exists>pre. snd (prefetchProductDetail env i w) = snd w @ pre \<and> pre \<noteq> [] \<and>
         isRequest (hd pre) \<and> (\<forall>e\<in>set pre. isPrefetchEvent e) \<and>
         (\<exists>a. last pre = DispatchProduct a)"
  by (auto simp: prefetchProductDetail_def Let_def emit_def dispatchProduct_def
           split: sum.splits)

lemma prefetch_events:
  "\<exists>pre. snd (prefetch env r q w) = snd w @ pre \<and> pre \<noteq> [] \<and>
         isRequest (hd pre) \<and> (\<forall>e\<in>set pre. isPrefetchEvent e) \<and>
         (\<exists>a. last pre = DispatchProduct a)"
  unfolding prefetch_def
  using prefetchProducts_events [of env q w] prefetchProductDetail_events [of env _ w]
  by (auto split: option.splits)

lemma render_eq:
  "render env url q s =
     renderAfterInit env (findRoute (cleanUrl env url) (BASE_URL env)) q
       (initializeStores env
         (setServerRoute (cleanUrl env url) q
            (params (findRoute (cleanUrl env url) (BASE_URL env))) (s, [])))"
  by (simp add: render_def renderAfterInit_def Let_def)

lemma findRoute_id:
  assumes "map_of (params (findRoute u b)) ''id'' = Some i"
  shows "i \<noteq> [] \<and> handler (findRoute u b) = ProductDetailPage"
  using assms unfolding findRoute_def match_routes_cases
  by (auto split: if_splits)

lemma filterRelated_eq:
  "filterRelated i xs = Inr ys \<Longrightarrow>
   ys = filter (\<lambda>p. js_get p ''productId'' \<noteq> Inr (JStr i)) xs"
proof (induction xs arbitrary: ys)
  case Nil
  then show ?case by simp
next
  case (Cons p ps)
  then show ?case
    by (auto simp: and_then_def split: sum.splits if_splits)
qed

subsection \<open>What the prefetch of the product list does\<close>

lemma productsPayload_fulfilled:
  assumes "getProducts env q = Inr resp" "getCategories env = Inr cats"
    and "js_get resp ''products'' = Inr ps" "js_get resp ''pagination'' = Inr pg"
    and "js_get pg ''total'' = Inr t"
  shows "productsPayload env q =
           Inr \<lparr>p_products = Some ps, p_categories = Some cats, p_totalCount = Some t,
                p_currentProduct = None, p_relatedProducts = None, p_loading = Some False,
                p_status = Some ''done'', p_error = Some JNull\<rparr>"
  using assms by (simp add: productsPayload_def promiseAll_def and_then_def)

lemma productsPayload_products_rejected:
  assumes "getProducts env q = Inl e" "getCategories env = Inr cats"
  shows "productsPayload env q = Inl e"
  using assms by (simp add: productsPayload_def promiseAll_def and_then_def)

lemma productsPayload_categories_rejected:
  assumes "getProducts env q = Inr resp" "getCategories env = Inl f"
  shows "productsPayload env q = Inl f"
  using assms by (simp add: productsPayload_def promiseAll_def and_then_def)

lemma productsPayload_both_rejected:
  assumes "getProducts env q = Inl e" "getCategories env = Inl f"
  shows "productsPayload env q = Inl (if categoriesSettleFirst env q then f else e)"
  using assms by (simp add: productsPayload_def promiseAll_def and_then_def)

lemma productsPayload_no_products:
  assumes "getProducts env q = Inr resp" "getCategories env = Inr cats"
    and "js_get resp ''products'' = Inl e"
  shows "productsPayload env q = Inl e"
  using assms by (simp add: productsPayload_def promiseAll_def and_then_def)

lemma productsPayload_no_total:
  assumes "getProducts env q = Inr resp" "getCategories env = Inr cats"
    and "js_get resp ''products'' = Inr ps" "js_get resp ''pagination'' = Inr pg"
    and "js_get pg ''total'' = Inl e"
  shows "productsPayload env q = Inl e"
  using assms by (simp add: productsPayload_def promiseAll_def and_then_def)

lemma prefetchProducts_ok:
  assumes "productsPayload env q = Inr p"
  shows "snd (prefetchProducts env q w) =
           snd w @ [GetProducts q, GetCategories, DispatchProduct (SETUP p)]"
  using assms by (simp add: prefetchProducts_def Let_def emit_def dispatchProduct_def)

lemma prefetchProducts_failed:
  assumes "productsPayload env q = Inl e"
  shows "snd (prefetchProducts env q w) =
           snd w @ [GetProducts q, GetCategories, Console InPrefetchProducts e,
                    DispatchProduct (SET_ERROR (message e))]"
  using assms by (simp add: prefetchProducts_def Let_def emit_def dispatchProduct_def)

subsection \<open>What the prefetch of a product does\<close>

lemma relatedProductsOf_rejected:
  assumes "getProducts env (relatedQuery c2) = Inl e"
  shows "relatedProductsOf env c2 i = Inl e"
  using assms by (simp add: relatedProductsOf_def and_then_def)

lemma relatedProductsOf_no_products:
  assumes "getProducts env (relatedQuery c2) = Inr resp" "js_get resp ''products'' = Inl e"
  shows "relatedProductsOf env c2 i = Inl e"
  using assms by (simp add: relatedProductsOf_def and_then_def)

lemma relatedProductsOf_fulfilled:
  assumes "getProducts env (relatedQuery c2) = Inr resp"
    and "js_get resp ''products'' = Inr (JArr xs)"
    and "\<forall>p\<in>set xs. p \<noteq> JNull \<and> p \<noteq> JUndefined"
  shows "relatedProductsOf env c2 i =
           Inr (filter (\<lambda>p. js_get p ''productId'' \<noteq> Inr (JStr i)) xs)"
proof -
  have "filterRelated i ys = Inr (filter (\<lambda>p. js_get p ''productId'' \<noteq> Inr (JStr i)) ys)"
    if "\<forall>p\<in>set ys. p \<noteq> JNull \<and> p \<noteq> JUndefined" for ys
    using that
  proof (induction ys)
    case Nil
    then show ?case by simp
  next
    case (Cons p ps)
    then obtain v where "js_get p ''productId'' = Inr v"
      by (cases p) (auto simp: js_get_def)
    with Cons show ?case by (simp add: and_then_def)
  qed
  with assms show ?thesis by (simp add: relatedProductsOf_def and_then_def)
qed

lemma prefetchProductDetail_rejected:
  assumes "getProduct env i = Inl e"
  shows "snd (prefetchProductDetail env i w) =
           snd w @ [GetProduct i, Console InPrefetchProductDetail e,
                    DispatchProduct (SET_ERROR (message e))]"
  using assms by (simp add: prefetchProductDetail_def Let_def emit_def dispatchProduct_def)

lemma prefetchProductDetail_unreadable:
  assumes "getProduct env i = Inr product" "js_get product ''category2'' = Inl e"
  shows "snd (prefetchProductDetail env i w) =
           snd w @ [GetProduct i, DispatchProduct (SET_CURRENT_PRODUCT product),
                    Console InPrefetchProductDetail e, DispatchProduct (SET_ERROR (message e))]"
  using assms by (simp add: prefetchProductDetail_def Let_def emit_def dispatchProduct_def)

lemma prefetchProductDetail_no_category:
  assumes "getProduct env i = Inr product" "js_get product ''category2'' = Inr c2" "\<not> truthy c2"
  shows "snd (prefetchProductDetail env i w) =
           snd w @ [GetProduct i, DispatchProduct (SET_CURRENT_PRODUCT product)]"
  using assms by (simp add: prefetchProductDetail_def Let_def emit_def dispatchProduct_def)

lemma prefetchProductDetail_related_ok:
  assumes "getProduct env i = Inr product" "js_get product ''category2'' = Inr c2" "truthy c2"
    and "relatedProductsOf env c2 i = Inr rel"
  shows "snd (prefetchProductDetail env i w) =
           snd w @ [GetProduct i, DispatchProduct (SET_CURRENT_PRODUCT product),
                    GetProducts (relatedQuery c2),
                    DispatchProduct (SET_RELATED_PRODUCTS (JArr rel))]"
  using assms by (simp add: prefetchProductDetail_def Let_def emit_def dispatchProduct_def)

lemma prefetchProductDetail_related_failed:
  assumes "getProduct env i = Inr product" "js_get product ''category2'' = Inr c2" "truthy c2"
    and "relatedProductsOf env c2 i = Inl e"
  shows "snd (prefetchProductDetail env i w) =
           snd w @ [GetProduct i, DispatchProduct (SET_CURRENT_PRODUCT product),
                    GetProducts (relatedQuery c2), Console InRelatedProducts e,
                    DispatchProduct (SET_RELATED_PRODUCTS (JArr []))]"
  using assms by (simp add: prefetchProductDetail_def Let_def emit_def dispatchProduct_def)

subsection \<open>What render does after the prefetch\<close>

lemma prefetch_list:
  "map_of (params r) ''id'' = None \<Longrightarrow> prefetch env r q w = prefetchProducts env q w"
  by (simp add: prefetch_def)

lemma prefetch_detail:
  "map_of (params (findRoute u b)) ''id'' = Some i \<Longrightarrow>
   prefetch env (findRoute u b) q w = prefetchProductDetail env i w"
  using findRoute_id [of u b i] by (simp add: prefetch_def)

lemma renderAfterInit_page_ok:
  assumes "pages env (handler r) (fst (prefetch env r q w2)) = Inr html"
  shows "renderAfterInit env r q w2 =
           (Inr (js_or html []), fst (prefetch env r q w2),
            snd (prefetch env r q w2) @ [Invoke (handler r)])"
  using assms by (simp add: renderAfterInit_def Let_def emit_def)

lemma renderAfterInit_page_throws:
  assumes "pages env (handler r) (fst (prefetch env r q w2)) = Inl e"
  shows "renderAfterInit env r q w2 =
           (pages env NotFoundPage (fst (prefetch env r q w2)), fst (prefetch env r q w2),
            snd (prefetch env r q w2) @
              [Invoke (handler r), Console InRender e, Invoke NotFoundPage])"
  using assms by (simp add: renderAfterInit_def Let_def emit_def)

lemma initialized_events:
  "snd (initializeStores env (setServerRoute c q ps (s, []))) =
     SetServerRoute c q ps # resetEvents env"
  by (simp add: initializeStores_eq setServerRoute_def)

section \<open>The order of the steps of render\<close>

text \<open>
  C1 (amended). Every call of \<^verbatim>\<open>render(url, query)\<close> performs its steps in this order:
  it matches the URL to a route and hands the route to the router, then resets the three
  stores, then prefetches data over HTTP into the product store (it begins with a request
  to the product API and ends with a dispatch to the product store; what the API
  answered is dispatched: the product list with the categories and the total, or the
  product and then the related products), and finally invokes the page function of the
  matched route on the stores as the prefetch left them. If that function returns, its
  HTML is the result and nothing follows; only if it throws, the error is logged and
  \<open>NotFoundPage\<close> is invoked.
\<close>

theorem render_order:
  "let c = cleanUrl env url;
       r = findRoute c (BASE_URL env);
       w3 = prefetch env r q (initializeStores env (setServerRoute c q (params r) (s, [])));
       evs = snd (snd (render env url q s))
   in \<exists>pre post.
        evs = [SetServerRoute c q (params r)] @ resetEvents env @ pre @
              [Invoke (handler r)] @ post \<and>
        snd w3 = [SetServerRoute c q (params r)] @ resetEvents env @ pre \<and>
        fst (snd (render env url q s)) = fst w3 \<and>
        pre \<noteq> [] \<and> isRequest (hd pre) \<and> (\<forall>e\<in>set pre. isPrefetchEvent e) \<and>
        (\<exists>a. last pre = DispatchProduct a) \<and>
        (\<forall>resp cats ps pg t.
           map_of (params r) ''id'' = None \<and>
           getProducts env q = Inr resp \<and> getCategories env = Inr cats \<and>
           js_get resp ''products'' = Inr ps \<and> js_get resp ''pagination'' = Inr pg \<and>
           js_get pg ''total'' = Inr t \<longrightarrow>
           pre = [GetProducts q, GetCategories,
                  DispatchProduct (SETUP
                    \<lparr>p_products = Some ps, p_categories = Some cats, p_totalCount = Some t,
                     p_currentProduct = None, p_relatedProducts = None,
                     p_loading = Some False, p_status = Some ''done'',
                     p_error = Some JNull\<rparr>)]) \<and>
        (\<forall>i product.
           map_of (params r) ''id'' = Some i \<and> getProduct env i = Inr product \<longrightarrow>
           take 2 pre = [GetProduct i, DispatchProduct (SET_CURRENT_PRODUCT product)]) \<and>
        (\<forall>i product c2.
           map_of (params r) ''id'' = Some i \<and> getProduct env i = Inr product \<and>
           js_get product ''category2'' = Inr c2 \<and> \<not> truthy c2 \<longrightarrow>
           pre = [GetProduct i, DispatchProduct (SET_CURRENT_PRODUCT product)]) \<and>
        (\<forall>i product c2 rel.
           map_of (params r) ''id'' = Some i \<and> getProduct env i = Inr product \<and>
           js_get product ''category2'' = Inr c2 \<and> truthy c2 \<and>
           relatedProductsOf env c2 i = Inr rel \<longrightarrow>
           pre = [GetProduct i, DispatchProduct (SET_CURRENT_PRODUCT product),
                  GetProducts (relatedQuery c2),
                  DispatchProduct (SET_RELATED_PRODUCTS (JArr rel))]) \<and>
        (\<forall>html. pages env (handler r) (fst w3) = Inr html \<longrightarrow>
           post = [] \<and> fst (render env url q s) = Inr (js_or html [])) \<and>
        (\<forall>e. pages env (handler r) (fst w3) = Inl e \<longrightarrow>
           post = [Console InRender e, Invoke NotFoundPage] \<and>
           fst (render env url q s) = pages env NotFoundPage (fst w3))"
proof -
  let ?c = "cleanUrl env url"
  let ?r = "findRoute ?c (BASE_URL env)"
  let ?w2 = "initializeStores env (setServerRoute ?c q (params ?r) (s, []))"
  let ?w3 = "prefetch env ?r q ?w2"
  have w2: "snd ?w2 = [SetServerRoute ?c q (params ?r)] @ resetEvents env"
    by (simp add: initialized_events)
  obtain pre where pre: "snd ?w3 = snd ?w2 @ pre" and shape: "pre \<noteq> []" "isRequest (hd pre)"
      "\<forall>e\<in>set pre. isPrefetchEvent e" "\<exists>a. last pre = DispatchProduct a"
    using prefetch_events [of env ?r q ?w2] by blast
  define post where
    "post = (case pages env (handler ?r) (fst ?w3) of
               Inr html \<Rightarrow> []
             | Inl e \<Rightarrow> [Console InRender e, Invoke NotFoundPage])"
  have after: "snd (snd (render env url q s)) = snd ?w3 @ [Invoke (handler ?r)] @ post \<and>
      fst (snd (render env url q s)) = fst ?w3"
  proof (cases "pages env (handler ?r) (fst ?w3)")
    case (Inr html)
    from renderAfterInit_page_ok [OF this] Inr show ?thesis
      by (simp add: render_eq post_def)
  next
    case (Inl e)
    from renderAfterInit_page_throws [OF this] Inl show ?thesis
      by (simp add: render_eq post_def)
  qed
  have e1: "snd (snd (render env url q s)) =
      [SetServerRoute ?c q (params ?r)] @ resetEvents env @ pre @ [Invoke (handler ?r)] @ post"
    using after pre w2 by simp
  have e2: "snd ?w3 = [SetServerRoute ?c q (params ?r)] @ resetEvents env @ pre"
    using pre w2 by simp
  have e3: "fst (snd (render env url q s)) = fst ?w3"
    using after by simp
  have fixed: "pre = xs" if "snd ?w3 = snd ?w2 @ xs" for xs
    using that pre by simp
  have list: "pre = [GetProducts q, GetCategories,
        DispatchProduct (SETUP
          \<lparr>p_products = Some ps, p_categories = Some cats, p_totalCount = Some t,
           p_currentProduct = None, p_relatedProducts = None,
           p_loading = Some False, p_status = Some ''done'', p_error = Some JNull\<rparr>)]"
    if "map_of (params ?r) ''id'' = None \<and>
        getProducts env q = Inr resp \<and> getCategories env = Inr cats \<and>
        js_get resp ''products'' = Inr ps \<and> js_get resp ''pagination'' = Inr pg \<and>
        js_get pg ''total'' = Inr t" for resp cats ps pg t
  proof -
    from that have "productsPayload env q =
        Inr \<lparr>p_products = Some ps, p_categories = Some cats, p_totalCount = Some t,
             p_currentProduct = None, p_relatedProducts = None,
             p_loading = Some False, p_status = Some ''done'', p_error = Some JNull\<rparr>"
      by (elim conjE) (rule productsPayload_fulfilled, assumption+)
    from prefetchProducts_ok [OF this, of ?w2] that show ?thesis
      by (intro fixed) (simp add: prefetch_list)
  qed
  have none: "pre = [GetProduct i, DispatchProduct (SET_CURRENT_PRODUCT product)]"
    if "map_of (params ?r) ''id'' = Some i \<and> getProduct env i = Inr product \<and>
        js_get product ''category2'' = Inr c2 \<and> \<not> truthy c2" for i product c2
  proof -
    from that have "snd (prefetchProductDetail env i ?w2) =
        snd ?w2 @ [GetProduct i, DispatchProduct (SET_CURRENT_PRODUCT product)]"
      by (elim conjE) (rule prefetchProductDetail_no_category, assumption+)
    with that show ?thesis
      by (intro fixed) (simp add: prefetch_detail)
  qed
  have related: "pre = [GetProduct i, DispatchProduct (SET_CURRENT_PRODUCT product),
        GetProducts (relatedQuery c2), DispatchProduct (SET_RELATED_PRODUCTS (JArr rel))]"
    if "map_of (params ?r) ''id'' = Some i \<and> getProduct env i = Inr product \<and>
        js_get product ''category2'' = Inr c2 \<and> truthy c2 \<and>
        relatedProductsOf env c2 i = Inr rel" for i product c2 rel
  proof -
    from that have "snd (prefetchProductDetail env i ?w2) =
        snd ?w2 @ [GetProduct i, DispatchProduct (SET_CURRENT_PRODUCT product),
          GetProducts (relatedQuery c2), DispatchProduct (SET_RELATED_PRODUCTS (JArr rel))]"
      by (elim conjE) (rule prefetchProductDetail_related_ok, assumption+)
    with that show ?thesis
      by (intro fixed) (simp add: prefetch_detail)
  qed
  have current: "take 2 pre = [GetProduct i, DispatchProduct (SET_CURRENT_PRODUCT product)]"
    if "map_of (params ?r) ''id'' = Some i \<and> getProduct env i = Inr product" for i product
  proof -
    from that have "snd ?w3 = snd (prefetchProductDetail env i ?w2)"
      by (simp add: prefetch_detail)
    also from that have "take 2 (drop (length (snd ?w2)) \<dots>) =
        [GetProduct i, DispatchProduct (SET_CURRENT_PRODUCT product)]"
      by (auto simp: prefetchProductDetail_def Let_def emit_def dispatchProduct_def
               split: sum.splits)
    finally show ?thesis using pre by simp
  qed
  have ok: "post = [] \<and> fst (render env url q s) = Inr (js_or html [])"
    if "pages env (handler ?r) (fst ?w3) = Inr html" for html
    using renderAfterInit_page_ok [OF that] that by (simp add: render_eq post_def)
  have thrown: "post = [Console InRender e, Invoke NotFoundPage] \<and>
      fst (render env url q s) = pages env NotFoundPage (fst ?w3)"
    if "pages env (handler ?r) (fst ?w3) = Inl e" for e
    using renderAfterInit_page_throws [OF that] that by (simp add: render_eq post_def)
  have list': "\<forall>resp cats ps pg t.
      map_of (params ?r) ''id'' = None \<and>
      getProducts env q = Inr resp \<and> getCategories env = Inr cats \<and>
      js_get resp ''products'' = Inr ps \<and> js_get resp ''pagination'' = Inr pg \<and>
      js_get pg ''total'' = Inr t \<longrightarrow>
      pre = [GetProducts q, GetCategories,
             DispatchProduct (SETUP
               \<lparr>p_products = Some ps, p_categories = Some cats, p_totalCount = Some t,
                p_currentProduct = None, p_relatedProducts = None,
                p_loading = Some False, p_status = Some ''done'',
                p_error = Some JNull\<rparr>)]"
    using list by blast
  have current': "\<forall>i product.
      map_of (params ?r) ''id'' = Some i \<and> getProduct env i = Inr product \<longrightarrow>
      take 2 pre = [GetProduct i, DispatchProduct (SET_CURRENT_PRODUCT product)]"
    using current by blast
  have none': "\<forall>i product c2.
      map_of (params ?r) ''id'' = Some i \<and> getProduct env i = Inr product \<and>
      js_get product ''category2'' = Inr c2 \<and> \<not> truthy c2 \<longrightarrow>
      pre = [GetProduct i, DispatchProduct (SET_CURRENT_PRODUCT product)]"
    using none by blast
  have related': "\<forall>i product c2 rel.
      map_of (params ?r) ''id'' = Some i \<and> getProduct env i = Inr product \<and>
      js_get product ''category2'' = Inr c2 \<and> truthy c2 \<and>
      relatedProductsOf env c2 i = Inr rel \<longrightarrow>
      pre = [GetProduct i, DispatchProduct (SET_CURRENT_PRODUCT product),
             GetProducts (relatedQuery c2),
             DispatchProduct (SET_RELATED_PRODUCTS (JArr rel))]"
    using related by blast
  have ok': "\<forall>html. pages env (handler ?r) (fst ?w3) = Inr html \<longrightarrow>
      post = [] \<and> fst (render env url q s) = Inr (js_or html [])"
    using ok by blast
  have thrown': "\<forall>e. pages env (handler ?r) (fst ?w3) = Inl e \<longrightarrow>
      post = [Console InRender e, Invoke NotFoundPage] \<and>
      fst (render env url q s) = pages env NotFoundPage (fst ?w3)"
    using thrown by blast
  show ?thesis
    unfolding Let_def
    by (intro exI [of _ pre] exI [of _ post] conjI)
       (fact e1 e2 e3 shape list' current' none' related' ok' thrown')+
qed

theorem render_order_witness:
  "map_of (params (findRoute (cleanUrl example_env ''/product/1'') (BASE_URL example_env))) ''id''
     = Some ''1'' \<and>
   getProduct example_env ''1'' = Inr (example_product ''1'') \<and>
   js_get (example_product ''1'') ''category2'' = Inr (JStr ''shoes'') \<and>
   truthy (JStr ''shoes'') \<and>
   relatedProductsOf example_env (JStr ''shoes'') ''1'' = Inr [example_product ''2''] \<and>
   snd (snd (render example_env ''/product/1'' [] example_stores)) =
     [SetServerRoute ''/product/1'' [] [(''id'', ''1'')]] @ resetEvents example_env @
     [GetProduct ''1'', DispatchProduct (SET_CURRENT_PRODUCT (example_product ''1'')),
      GetProducts (relatedQuery (JStr ''shoes'')),
      DispatchProduct (SET_RELATED_PRODUCTS (JArr [example_product ''2'']))] @
     [Invoke ProductDetailPage] \<and>
   fst (render example_env ''/product/1'' [] example_stores) = Inr ''<main>detail</main>'' \<and>
   map_of (params (findRoute (cleanUrl example_env ''/'') (BASE_URL example_env))) ''id'' = None \<and>
   snd (snd (render example_env ''/'' [] example_stores)) =
     [SetServerRoute ''/'' [] []] @ resetEvents example_env @
     [GetProducts [], GetCategories,
      DispatchProduct (SETUP
        \<lparr>p_products = Some (JArr [example_product ''1'', example_product ''2'']),
         p_categories = Some (JObj []), p_totalCount = Some (JNum 2),
         p_currentProduct = None, p_relatedProducts = None,
         p_loading = Some False, p_status = Some ''done'', p_error = Some JNull\<rparr>)] @
     [Invoke HomePage] \<and>
   fst (render example_env ''/'' [] example_stores) = Inr ''<main>home</main>'' \<and>
   drop 9 (snd (snd (render example_env_detail_throwing ''/product/1'' [] example_stores))) =
     [Invoke ProductDetailPage, Console InRender (Error ''cannot render''), Invoke NotFoundPage]"
proof -
  let ?E = example_env
  let ?T = example_env_detail_throwing
  have b: "BASE_URL ?E = []" "BASE_URL ?T = []"
    by (simp_all add: example_env_def example_env_detail_throwing_def)
  have c: "cleanUrl ?E ''/product/1'' = ''/product/1''" "cleanUrl ?E ''/'' = ''/''"
    "cleanUrl ?T ''/product/1'' = ''/product/1''" "cleanUrl ?T ''/'' = ''/''"
    by (simp_all add: cleanUrl_def b js_replace_empty strip_trailing_slash_def js_or_def)
  have r: "findRoute ''/product/1'' [] = \<lparr>handler = ProductDetailPage, params = [(''id'', ''1'')]\<rparr>"
    "findRoute ''/'' [] = \<lparr>handler = HomePage, params = []\<rparr>"
    by (simp_all add: findRoute_def match_routes_cases cleanPath_empty_base before_query_def
          strip_trailing_slash_def js_or_def)
  have g: "getProduct ?E ''1'' = Inr (example_product ''1'')"
    "getProduct ?T ''1'' = Inr (example_product ''1'')"
    "js_get (example_product ''1'') ''category2'' = Inr (JStr ''shoes'')"
    by (simp_all add: example_env_def example_env_detail_throwing_def example_product_def
          js_get_def)
  have resp: "getProducts ?E x = Inr (JObj [(''products'', JArr [example_product ''1'', example_product ''2'']),
        (''pagination'', JObj [(''total'', JNum 2)])])"
    "getProducts ?T x = Inr (JObj [(''products'', JArr [example_product ''1'', example_product ''2'']),
        (''pagination'', JObj [(''total'', JNum 2)])])"
    "getCategories ?E = Inr (JObj [])" for x
    by (simp_all add: example_env_def example_env_detail_throwing_def)
  have rel: "relatedProductsOf ?E (JStr ''shoes'') ''1'' = Inr [example_product ''2'']"
    "relatedProductsOf ?T (JStr ''shoes'') ''1'' = Inr [example_product ''2'']"
    by (simp_all add: relatedProductsOf_def and_then_def resp js_get_def example_product_def)
  have p: "pages ?E ProductDetailPage x = Inr ''<main>detail</main>''"
    "pages ?E HomePage x = Inr ''<main>home</main>''"
    "pages ?T ProductDetailPage x = Inl (Error ''cannot render'')" for x
    by (simp_all add: example_env_def example_env_detail_throwing_def example_pages_def)
  from render_order [of ?E "''/product/1''" "[]" example_stores]
  have detail: "snd (snd (render ?E ''/product/1'' [] example_stores)) =
      [SetServerRoute ''/product/1'' [] [(''id'', ''1'')]] @ resetEvents ?E @
      [GetProduct ''1'', DispatchProduct (SET_CURRENT_PRODUCT (example_product ''1'')),
       GetProducts (relatedQuery (JStr ''shoes'')),
       DispatchProduct (SET_RELATED_PRODUCTS (JArr [example_product ''2'']))] @
      [Invoke ProductDetailPage] \<and>
      fst (render ?E ''/product/1'' [] example_stores) = Inr ''<main>detail</main>''"
    unfolding Let_def b c r by (auto simp: g rel p js_or_def)
  from render_order [of ?E "''/''" "[]" example_stores]
  have list: "snd (snd (render ?E ''/'' [] example_stores)) =
      [SetServerRoute ''/'' [] []] @ resetEvents ?E @
      [GetProducts [], GetCategories,
       DispatchProduct (SETUP
         \<lparr>p_products = Some (JArr [example_product ''1'', example_product ''2'']),
          p_categories = Some (JObj []), p_totalCount = Some (JNum 2),
          p_currentProduct = None, p_relatedProducts = None,
          p_loading = Some False, p_status = Some ''done'', p_error = Some JNull\<rparr>)] @
      [Invoke HomePage] \<and>
      fst (render ?E ''/'' [] example_stores) = Inr ''<main>home</main>''"
    unfolding Let_def b c r by (auto simp: resp p js_get_def js_or_def)
  from render_order [of ?T "''/product/1''" "[]" example_stores]
  have thrown: "drop 9 (snd (snd (render ?T ''/product/1'' [] example_stores))) =
      [Invoke ProductDetailPage, Console InRender (Error ''cannot render''), Invoke NotFoundPage]"
    unfolding Let_def b c r by (auto simp: g rel p resetEvents_def)
  have id: "map_of (params (findRoute (cleanUrl ?E ''/product/1'') (BASE_URL ?E))) ''id'' = Some ''1''"
    "map_of (params (findRoute (cleanUrl ?E ''/'') (BASE_URL ?E))) ''id'' = None"
    unfolding b c r by simp_all
  from id g(1,3) rel(1) detail list thrown show ?thesis by simp
qed

text \<open>
  C1, as stated, fails: the first thing a call does is to hand the matched route, with
  the \<open>id\<close> taken from the URL, to the router; the first reset of a store comes after
  it.
\<close>

theorem render_order_counterexample:
  "take 2 (snd (snd (render example_env ''/product/1'' [] example_stores))) =
     [SetServerRoute ''/product/1'' [] [(''id'', ''1'')],
      DispatchProduct (SETUP (initialPayload example_product_state))]"
  by code_simp

section \<open>The stores at the start of the prefetch\<close>

text \<open>
  C5. In every call of \<^verbatim>\<open>render\<close>, right after \<^verbatim>\<open>initializeStores()\<close> and before
  anything of the prefetch (the events so far are the router call and the four reset
  dispatches), the cart is empty, the cart modal is closed and the toast hidden, and the
  product store is the initial product state with \<open>loading = true\<close> and
  \<open>status = "pending"\<close>, whatever the stores held before the call.
\<close>

theorem stores_after_initializeStores:
  "let c = cleanUrl env url;
       r = findRoute c (BASE_URL env);
       w2 = initializeStores env (setServerRoute c q (params r) (s, []))
   in render env url q s = renderAfterInit env r q w2 \<and>
      snd w2 = SetServerRoute c q (params r) # resetEvents env \<and>
      items (cartStore (fst w2)) = [] \<and>
      \<not> cartModalOpen (uiStore (fst w2)) \<and>
      \<not> toastVisible (uiStore (fst w2)) \<and>
      productStore (fst w2) = (initialProductState env)\<lparr>loading := True, status := ''pending''\<rparr>"
  by (simp add: Let_def render_eq initializeStores_eq setServerRoute_def)

theorem stores_after_initializeStores_witness:
  "items (cartStore example_stores) \<noteq> [] \<and> cartModalOpen (uiStore example_stores) \<and>
   productStore example_stores \<noteq> example_product_state\<lparr>loading := True, status := ''pending''\<rparr> \<and>
   (let c = cleanUrl example_env ''/'';
        r = findRoute c (BASE_URL example_env);
        w2 = initializeStores example_env (setServerRoute c [] (params r) (example_stores, []))
    in render example_env ''/'' [] example_stores = renderAfterInit example_env r [] w2 \<and>
       snd w2 = SetServerRoute c [] (params r) # resetEvents example_env \<and>
       items (cartStore (fst w2)) = [] \<and>
       \<not> cartModalOpen (uiStore (fst w2)) \<and>
       \<not> toastVisible (uiStore (fst w2)) \<and>
       productStore (fst w2) = example_product_state\<lparr>loading := True, status := ''pending''\<rparr>)"
proof -
  have "initialProductState example_env = example_product_state"
    by (simp add: example_env_def)
  with stores_after_initializeStores [of example_env "''/''" "[]" example_stores]
  show ?thesis
    by (simp add: example_stores_def example_product_state_def)
qed

section \<open>Errors during render\<close>

lemma renderAfterInit_events:
  "set (snd (prefetch env r q w2)) \<subseteq> set (snd (snd (renderAfterInit env r q w2)))"
  by (auto simp: renderAfterInit_def Let_def emit_def split: sum.splits)

text \<open>
  C3 (amended). An error thrown during the prefetch is caught inside the prefetch
  function, whatever its cause: a rejected request (of two rejected requests for the
  list, the one rejected first), or an answer that cannot be read (no \<^verbatim>\<open>products\<close>, no
  \<^verbatim>\<open>pagination.total\<close>, no product to read \<^verbatim>\<open>category2\<close> from). It is logged and
  recorded in the product store with \<open>SET_ERROR\<close>; a failure of the related products (a
  rejected request, or an answer without a list of products) is logged and recorded as
  an empty list. \<^verbatim>\<open>render\<close> then goes on and returns the HTML of
  the matched page. An error thrown by the page function of the matched route is caught
  by \<^verbatim>\<open>render\<close> and logged, and \<^verbatim>\<open>render\<close> returns what \<open>NotFoundPage\<close> returns on the
  same stores. So \<^verbatim>\<open>render\<close> resolves whenever \<open>NotFoundPage\<close> does not throw there.
\<close>

theorem render_error_handling:
  "let c = cleanUrl env url;
       r = findRoute c (BASE_URL env);
       w2 = initializeStores env (setServerRoute c q (params r) (s, []));
       w3 = prefetch env r q w2;
       res = fst (render env url q s);
       evs = snd (snd (render env url q s))
   in snd w2 = SetServerRoute c q (params r) # resetEvents env \<and>
      (\<forall>html. pages env (handler r) (fst w3) = Inr html \<longrightarrow>
           res = Inr (js_or html []) \<and> evs = snd w3 @ [Invoke (handler r)]) \<and>
      (\<forall>e. pages env (handler r) (fst w3) = Inl e \<longrightarrow>
           res = pages env NotFoundPage (fst w3) \<and>
           evs = snd w3 @ [Invoke (handler r), Console InRender e, Invoke NotFoundPage]) \<and>
      ((\<exists>html. pages env NotFoundPage (fst w3) = Inr html) \<longrightarrow> (\<exists>html. res = Inr html)) \<and>
      (\<forall>e. map_of (params r) ''id'' = None \<and> productsPayload env q = Inl e \<longrightarrow>
           snd w3 = snd w2 @ [GetProducts q, GetCategories, Console InPrefetchProducts e,
                              DispatchProduct (SET_ERROR (message e))]) \<and>
      (\<forall>e cats. getProducts env q = Inl e \<and> getCategories env = Inr cats \<longrightarrow>
           productsPayload env q = Inl e) \<and>
      (\<forall>resp f. getProducts env q = Inr resp \<and> getCategories env = Inl f \<longrightarrow>
           productsPayload env q = Inl f) \<and>
      (\<forall>e f. getProducts env q = Inl e \<and> getCategories env = Inl f \<longrightarrow>
           productsPayload env q = Inl (if categoriesSettleFirst env q then f else e)) \<and>
      (\<forall>resp cats e. getProducts env q = Inr resp \<and> getCategories env = Inr cats \<and>
           js_get resp ''products'' = Inl e \<longrightarrow>
           productsPayload env q = Inl e) \<and>
      (\<forall>resp cats ps pg e. getProducts env q = Inr resp \<and> getCategories env = Inr cats \<and>
           js_get resp ''products'' = Inr ps \<and> js_get resp ''pagination'' = Inr pg \<and>
           js_get pg ''total'' = Inl e \<longrightarrow>
           productsPayload env q = Inl e) \<and>
      (\<forall>i e. map_of (params r) ''id'' = Some i \<and> getProduct env i = Inl e \<longrightarrow>
           snd w3 = snd w2 @ [GetProduct i, Console InPrefetchProductDetail e,
                              DispatchProduct (SET_ERROR (message e))]) \<and>
      (\<forall>i product e. map_of (params r) ''id'' = Some i \<and> getProduct env i = Inr product \<and>
           js_get product ''category2'' = Inl e \<longrightarrow>
           snd w3 = snd w2 @ [GetProduct i, DispatchProduct (SET_CURRENT_PRODUCT product),
                              Console InPrefetchProductDetail e,
                              DispatchProduct (SET_ERROR (message e))]) \<and>
      (\<forall>i product c2 e. map_of (params r) ''id'' = Some i \<and> getProduct env i = Inr product \<and>
           js_get product ''category2'' = Inr c2 \<and> truthy c2 \<and>
           relatedProductsOf env c2 i = Inl e \<longrightarrow>
           snd w3 = snd w2 @ [GetProduct i, DispatchProduct (SET_CURRENT_PRODUCT product),
                              GetProducts (relatedQuery c2), Console InRelatedProducts e,
                              DispatchProduct (SET_RELATED_PRODUCTS (JArr []))]) \<and>
      (\<forall>c2 i e. getProducts env (relatedQuery c2) = Inl e \<longrightarrow>
           relatedProductsOf env c2 i = Inl e) \<and>
      (\<forall>c2 i resp e. getProducts env (relatedQuery c2) = Inr resp \<and>
           js_get resp ''products'' = Inl e \<longrightarrow>
           relatedProductsOf env c2 i = Inl e) \<and>
      (\<forall>c2 i resp. getProducts env (relatedQuery c2) = Inr resp \<and>
           js_get resp ''products'' = Inr JUndefined \<longrightarrow>
           relatedProductsOf env c2 i = Inl (cannotRead ''undefined'' ''filter''))"
proof -
  let ?c = "cleanUrl env url"
  let ?r = "findRoute ?c (BASE_URL env)"
  let ?w2 = "initializeStores env (setServerRoute ?c q (params ?r) (s, []))"
  let ?w3 = "prefetch env ?r q ?w2"
  let ?res = "fst (render env url q s)"
  let ?evs = "snd (snd (render env url q s))"
  have w2: "snd ?w2 = SetServerRoute ?c q (params ?r) # resetEvents env"
    by (rule initialized_events)
  have ok: "?res = Inr (js_or html []) \<and> ?evs = snd ?w3 @ [Invoke (handler ?r)]"
    if "pages env (handler ?r) (fst ?w3) = Inr html" for html
    using renderAfterInit_page_ok [OF that] by (simp add: render_eq)
  have caught: "?res = pages env NotFoundPage (fst ?w3) \<and>
      ?evs = snd ?w3 @ [Invoke (handler ?r), Console InRender e, Invoke NotFoundPage]"
    if "pages env (handler ?r) (fst ?w3) = Inl e" for e
    using renderAfterInit_page_throws [OF that] by (simp add: render_eq)
  have resolves: "\<exists>html. ?res = Inr html" if "\<exists>html. pages env NotFoundPage (fst ?w3) = Inr html"
  proof (cases "pages env (handler ?r) (fst ?w3)")
    case (Inl e)
    with caught that show ?thesis by simp
  next
    case (Inr html)
    with ok show ?thesis by blast
  qed
  have list_failure: "snd ?w3 = snd ?w2 @ [GetProducts q, GetCategories,
      Console InPrefetchProducts e, DispatchProduct (SET_ERROR (message e))]"
    if "map_of (params ?r) ''id'' = None \<and> productsPayload env q = Inl e" for e
    using that prefetchProducts_failed [of env q e ?w2] by (simp add: prefetch_list)
  have p1: "productsPayload env q = Inl e"
    if "getProducts env q = Inl e \<and> getCategories env = Inr cats" for e cats
    using that by (elim conjE) (rule productsPayload_products_rejected, assumption+)
  have p2: "productsPayload env q = Inl f"
    if "getProducts env q = Inr resp \<and> getCategories env = Inl f" for resp f
    using that by (elim conjE) (rule productsPayload_categories_rejected, assumption+)
  have p3: "productsPayload env q = Inl (if categoriesSettleFirst env q then f else e)"
    if "getProducts env q = Inl e \<and> getCategories env = Inl f" for e f
    using that by (elim conjE) (rule productsPayload_both_rejected, assumption+)
  have p4: "productsPayload env q = Inl e"
    if "getProducts env q = Inr resp \<and> getCategories env = Inr cats \<and>
        js_get resp ''products'' = Inl e" for resp cats e
    using that by (elim conjE) (rule productsPayload_no_products, assumption+)
  have p5: "productsPayload env q = Inl e"
    if "getProducts env q = Inr resp \<and> getCategories env = Inr cats \<and>
        js_get resp ''products'' = Inr ps \<and> js_get resp ''pagination'' = Inr pg \<and>
        js_get pg ''total'' = Inl e" for resp cats ps pg e
    using that by (elim conjE) (rule productsPayload_no_total, assumption+)
  have d1: "snd ?w3 = snd ?w2 @ [GetProduct i, Console InPrefetchProductDetail e,
      DispatchProduct (SET_ERROR (message e))]"
    if "map_of (params ?r) ''id'' = Some i \<and> getProduct env i = Inl e" for i e
    using that prefetchProductDetail_rejected [of env i e ?w2] by (simp add: prefetch_detail)
  have d2: "snd ?w3 = snd ?w2 @ [GetProduct i, DispatchProduct (SET_CURRENT_PRODUCT product),
      Console InPrefetchProductDetail e, DispatchProduct (SET_ERROR (message e))]"
    if "map_of (params ?r) ''id'' = Some i \<and> getProduct env i = Inr product \<and>
        js_get product ''category2'' = Inl e" for i product e
    using that prefetchProductDetail_unreadable [of env i product e ?w2]
    by (simp add: prefetch_detail)
  have d3: "snd ?w3 = snd ?w2 @ [GetProduct i, DispatchProduct (SET_CURRENT_PRODUCT product),
      GetProducts (relatedQuery c2), Console InRelatedProducts e,
      DispatchProduct (SET_RELATED_PRODUCTS (JArr []))]"
    if "map_of (params ?r) ''id'' = Some i \<and> getProduct env i = Inr product \<and>
        js_get product ''category2'' = Inr c2 \<and> truthy c2 \<and>
        relatedProductsOf env c2 i = Inl e" for i product c2 e
    using that prefetchProductDetail_related_failed [of env i product c2 e ?w2]
    by (simp add: prefetch_detail)
  have r1: "relatedProductsOf env c2 i = Inl e"
    if "getProducts env (relatedQuery c2) = Inl e" for c2 i e
    using that by (rule relatedProductsOf_rejected)
  have r2: "relatedProductsOf env c2 i = Inl e"
    if "getProducts env (relatedQuery c2) = Inr resp \<and> js_get resp ''products'' = Inl e"
    for c2 i resp e
    using that by (elim conjE) (rule relatedProductsOf_no_products, assumption+)
  have ok': "\<forall>html. pages env (handler ?r) (fst ?w3) = Inr html \<longrightarrow>
      ?res = Inr (js_or html []) \<and> ?evs = snd ?w3 @ [Invoke (handler ?r)]"
    using ok by blast
  have caught': "\<forall>e. pages env (handler ?r) (fst ?w3) = Inl e \<longrightarrow>
      ?res = pages env NotFoundPage (fst ?w3) \<and>
      ?evs = snd ?w3 @ [Invoke (handler ?r), Console InRender e, Invoke NotFoundPage]"
    using caught by blast
  have resolves': "(\<exists>html. pages env NotFoundPage (fst ?w3) = Inr html) \<longrightarrow>
      (\<exists>html. ?res = Inr html)"
    using resolves by blast
  have list_failure': "\<forall>e. map_of (params ?r) ''id'' = None \<and> productsPayload env q = Inl e \<longrightarrow>
      snd ?w3 = snd ?w2 @ [GetProducts q, GetCategories, Console InPrefetchProducts e,
                           DispatchProduct (SET_ERROR (message e))]"
    using list_failure by blast
  have p1': "\<forall>e cats. getProducts env q = Inl e \<and> getCategories env = Inr cats \<longrightarrow>
      productsPayload env q = Inl e"
    using p1 by blast
  have p2': "\<forall>resp f. getProducts env q = Inr resp \<and> getCategories env = Inl f \<longrightarrow>
      productsPayload env q = Inl f"
    using p2 by blast
  have p3': "\<forall>e f. getProducts env q = Inl e \<and> getCategories env = Inl f \<longrightarrow>
      productsPayload env q = Inl (if categoriesSettleFirst env q then f else e)"
    using p3 by blast
  have p4': "\<forall>resp cats e. getProducts env q = Inr resp \<and> getCategories env = Inr cats \<and>
      js_get resp ''products'' = Inl e \<longrightarrow>
      productsPayload env q = Inl e"
    using p4 by blast
  have p5': "\<forall>resp cats ps pg e. getProducts env q = Inr resp \<and> getCategories env = Inr cats \<and>
      js_get resp ''products'' = Inr ps \<and> js_get resp ''pagination'' = Inr pg \<and>
      js_get pg ''total'' = Inl e \<longrightarrow>
      productsPayload env q = Inl e"
    using p5 by blast
  have d1': "\<forall>i e. map_of (params ?r) ''id'' = Some i \<and> getProduct env i = Inl e \<longrightarrow>
      snd ?w3 = snd ?w2 @ [GetProduct i, Console InPrefetchProductDetail e,
                           DispatchProduct (SET_ERROR (message e))]"
    using d1 by blast
  have d2': "\<forall>i product e. map_of (params ?r) ''id'' = Some i \<and> getProduct env i = Inr product \<and>
      js_get product ''category2'' = Inl e \<longrightarrow>
      snd ?w3 = snd ?w2 @ [GetProduct i, DispatchProduct (SET_CURRENT_PRODUCT product),
                           Console InPrefetchProductDetail e,
                           DispatchProduct (SET_ERROR (message e))]"
    using d2 by blast
  have d3': "\<forall>i product c2 e. map_of (params ?r) ''id'' = Some i \<and> getProduct env i = Inr product \<and>
      js_get product ''category2'' = Inr c2 \<and> truthy c2 \<and>
      relatedProductsOf env c2 i = Inl e \<longrightarrow>
      snd ?w3 = snd ?w2 @ [GetProduct i, DispatchProduct (SET_CURRENT_PRODUCT product),
                           GetProducts (relatedQuery c2), Console InRelatedProducts e,
                           DispatchProduct (SET_RELATED_PRODUCTS (JArr []))]"
    using d3 by blast
  have r1': "\<forall>c2 i e. getProducts env (relatedQuery c2) = Inl e \<longrightarrow>
      relatedProductsOf env c2 i = Inl e"
    using r1 by blast
  have r2': "\<forall>c2 i resp e. getProducts env (relatedQuery c2) = Inr resp \<and>
      js_get resp ''products'' = Inl e \<longrightarrow>
      relatedProductsOf env c2 i = Inl e"
    using r2 by blast
  have r3': "\<forall>c2 i resp. getProducts env (relatedQuery c2) = Inr resp \<and>
      js_get resp ''products'' = Inr JUndefined \<longrightarrow>
      relatedProductsOf env c2 i = Inl (cannotRead ''undefined'' ''filter'')"
    by (simp add: relatedProductsOf_def and_then_def)
  show ?thesis
    unfolding Let_def
    by (intro conjI)
       (fact w2 ok' caught' resolves' list_failure' p1' p2' p3' p4' p5' d1' d2' d3' r1' r2' r3')+
qed

theorem render_error_handling_witness:
  "pages example_env_detail_throwing ProductDetailPage example_stores = Inl (Error ''cannot render'') \<and>
   fst (render example_env_detail_throwing ''/product/1'' [] example_stores) = Inr ''<main>404</main>'' \<and>
   Console InRender (Error ''cannot render'')
     \<in> set (snd (snd (render example_env_detail_throwing ''/product/1'' [] example_stores))) \<and>
   getProducts example_env_down [] = Inl (Error ''products failed'') \<and>
   getCategories example_env_down = Inl (Error ''categories failed'') \<and>
   categoriesSettleFirst example_env_down [] \<and>
   drop 5 (snd (snd (render example_env_down ''/'' [] example_stores))) =
     [GetProducts [], GetCategories, Console InPrefetchProducts (Error ''categories failed''),
      DispatchProduct (SET_ERROR ''categories failed''), Invoke HomePage] \<and>
   fst (render example_env_down ''/'' [] example_stores) = Inr ''<main>home</main>'' \<and>
   getProduct example_env_down ''1'' = Inl (Error ''product failed'') \<and>
   drop 5 (snd (snd (render example_env_down ''/product/1'' [] example_stores))) =
     [GetProduct ''1'', Console InPrefetchProductDetail (Error ''product failed''),
      DispatchProduct (SET_ERROR ''product failed''), Invoke ProductDetailPage] \<and>
   fst (render example_env_down ''/product/1'' [] example_stores) = Inr ''<main>detail</main>'' \<and>
   getProduct example_env_null_product ''1'' = Inr JNull \<and>
   js_get JNull ''category2'' = Inl (cannotRead ''null'' ''category2'') \<and>
   drop 5 (snd (snd (render example_env_null_product ''/product/1'' [] example_stores))) =
     [GetProduct ''1'', DispatchProduct (SET_CURRENT_PRODUCT JNull),
      Console InPrefetchProductDetail (cannotRead ''null'' ''category2''),
      DispatchProduct (SET_ERROR (message (cannotRead ''null'' ''category2''))),
      Invoke ProductDetailPage] \<and>
   fst (render example_env_null_product ''/product/1'' [] example_stores) = Inr ''<main>detail</main>'' \<and>
   getProducts example_env_related_down (relatedQuery (JStr ''shoes'')) = Inl (Error ''products failed'') \<and>
   drop 5 (snd (snd (render example_env_related_down ''/product/1'' [] example_stores))) =
     [GetProduct ''1'', DispatchProduct (SET_CURRENT_PRODUCT (example_product ''1'')),
      GetProducts (relatedQuery (JStr ''shoes'')),
      Console InRelatedProducts (Error ''products failed''),
      DispatchProduct (SET_RELATED_PRODUCTS (JArr [])), Invoke ProductDetailPage] \<and>
   fst (render example_env_related_down ''/product/1'' [] example_stores) = Inr ''<main>detail</main>''"
proof -
  let ?T = example_env_detail_throwing
  let ?D = example_env_down
  let ?N = example_env_null_product
  let ?R = example_env_related_down
  note envs = example_env_detail_throwing_def example_env_down_def example_env_null_product_def
    example_env_related_down_def example_env_def
  have b: "BASE_URL ?T = []" "BASE_URL ?D = []" "BASE_URL ?N = []" "BASE_URL ?R = []"
    by (simp_all add: envs)
  have c: "cleanUrl ?T ''/product/1'' = ''/product/1''" "cleanUrl ?D ''/product/1'' = ''/product/1''"
    "cleanUrl ?N ''/product/1'' = ''/product/1''" "cleanUrl ?R ''/product/1'' = ''/product/1''"
    "cleanUrl ?D ''/'' = ''/''"
    by (simp_all add: cleanUrl_def b js_replace_empty strip_trailing_slash_def js_or_def)
  have r: "findRoute ''/product/1'' [] = \<lparr>handler = ProductDetailPage, params = [(''id'', ''1'')]\<rparr>"
    "findRoute ''/'' [] = \<lparr>handler = HomePage, params = []\<rparr>"
    by (simp_all add: findRoute_def match_routes_cases cleanPath_empty_base before_query_def
          strip_trailing_slash_def js_or_def)
  have len: "length (resetEvents env) = 4" for env
    by (simp add: resetEvents_def)
  have pt: "pages ?T ProductDetailPage x = Inl (Error ''cannot render'')"
    "pages ?T NotFoundPage x = Inr ''<main>404</main>''"
    "pages ?D HomePage x = Inr ''<main>home</main>''"
    "pages ?D ProductDetailPage x = Inr ''<main>detail</main>''"
    "pages ?N ProductDetailPage x = Inr ''<main>detail</main>''"
    "pages ?R ProductDetailPage x = Inr ''<main>detail</main>''" for x
    by (simp_all add: envs example_pages_def)
  have api: "getProducts ?D x = Inl (Error ''products failed'')"
    "getCategories ?D = Inl (Error ''categories failed'')"
    "categoriesSettleFirst ?D x"
    "getProduct ?D y = Inl (Error ''product failed'')"
    "getProduct ?N y = Inr JNull"
    "getProduct ?R y = Inr (example_product y)"
    "getProducts ?R x = Inl (Error ''products failed'')" for x y
    by (simp_all add: envs)
  have g: "js_get JNull ''category2'' = Inl (cannotRead ''null'' ''category2'')"
    "js_get (example_product ''1'') ''category2'' = Inr (JStr ''shoes'')"
    by (simp_all add: js_get_def example_product_def)
  from render_error_handling [of ?T "''/product/1''" "[]" example_stores]
  have t: "fst (render ?T ''/product/1'' [] example_stores) = Inr ''<main>404</main>'' \<and>
      Console InRender (Error ''cannot render'')
        \<in> set (snd (snd (render ?T ''/product/1'' [] example_stores)))"
    unfolding Let_def b c r by (simp add: pt)
  from render_error_handling [of ?D "''/''" "[]" example_stores]
  have d: "drop 5 (snd (snd (render ?D ''/'' [] example_stores))) =
      [GetProducts [], GetCategories, Console InPrefetchProducts (Error ''categories failed''),
       DispatchProduct (SET_ERROR ''categories failed''), Invoke HomePage] \<and>
      fst (render ?D ''/'' [] example_stores) = Inr ''<main>home</main>''"
    unfolding Let_def b c r by (simp add: pt api len js_or_def)
  from render_error_handling [of ?D "''/product/1''" "[]" example_stores]
  have p: "drop 5 (snd (snd (render ?D ''/product/1'' [] example_stores))) =
      [GetProduct ''1'', Console InPrefetchProductDetail (Error ''product failed''),
       DispatchProduct (SET_ERROR ''product failed''), Invoke ProductDetailPage] \<and>
      fst (render ?D ''/product/1'' [] example_stores) = Inr ''<main>detail</main>''"
    unfolding Let_def b c r by (simp add: pt api len js_or_def)
  from render_error_handling [of ?N "''/product/1''" "[]" example_stores]
  have n: "drop 5 (snd (snd (render ?N ''/product/1'' [] example_stores))) =
      [GetProduct ''1'', DispatchProduct (SET_CURRENT_PRODUCT JNull),
       Console InPrefetchProductDetail (cannotRead ''null'' ''category2''),
       DispatchProduct (SET_ERROR (message (cannotRead ''null'' ''category2''))),
       Invoke ProductDetailPage] \<and>
      fst (render ?N ''/product/1'' [] example_stores) = Inr ''<main>detail</main>''"
    unfolding Let_def b c r by (simp add: pt api g len js_or_def)
  from render_error_handling [of ?R "''/product/1''" "[]" example_stores]
  have rl: "drop 5 (snd (snd (render ?R ''/product/1'' [] example_stores))) =
      [GetProduct ''1'', DispatchProduct (SET_CURRENT_PRODUCT (example_product ''1'')),
       GetProducts (relatedQuery (JStr ''shoes'')),
       Console InRelatedProducts (Error ''products failed''),
       DispatchProduct (SET_RELATED_PRODUCTS (JArr [])), Invoke ProductDetailPage] \<and>
      fst (render ?R ''/product/1'' [] example_stores) = Inr ''<main>detail</main>''"
    unfolding Let_def b c r by (simp add: pt api g len js_or_def)
  from t d p n rl pt(1) api g(1) show ?thesis by simp
qed

text \<open>
  C3, as stated, fails for an error of the prefetch: with the product API down, the
  request for the product list is rejected, and \<^verbatim>\<open>render\<close> returns the HTML of the home
  page, not that of \<open>NotFoundPage\<close>.
\<close>

theorem render_prefetch_error_counterexample:
  "getProducts example_env_down [] = Inl (Error ''products failed'') \<and>
   fst (render example_env_down ''/'' [] example_stores) = Inr ''<main>home</main>'' \<and>
   pages example_env_down NotFoundPage (fst (snd (render example_env_down ''/'' [] example_stores)))
     = Inr ''<main>404</main>''"
  by code_simp

lemma render_resolves:
  assumes "\<And>st. \<exists>html. pages env NotFoundPage st = Inr html"
  shows "\<exists>html. fst (render env url q s) = Inr html"
proof -
  let ?r = "findRoute (cleanUrl env url) (BASE_URL env)"
  let ?w2 = "initializeStores env (setServerRoute (cleanUrl env url) q (params ?r) (s, []))"
  show ?thesis
  proof (cases "pages env (handler ?r) (fst (prefetch env ?r q ?w2))")
    case (Inr html)
    from renderAfterInit_page_ok [OF this] show ?thesis by (simp add: render_eq)
  next
    case (Inl e)
    from renderAfterInit_page_throws [OF this] assms show ?thesis by (simp add: render_eq)
  qed
qed

text \<open>
  With the \<^verbatim>\<open>render\<close> of the server entry, the middleware sends the template for every
  request as long as \<open>NotFoundPage\<close> does not throw.
\<close>

lemma ssrMiddleware_with_render:
  assumes "\<And>st. \<exists>html. pages env NotFoundPage st = Inr html"
  shows "\<exists>html. ssrMiddleware (\<lambda>url q. fst (render env url q s)) base production assetFiles req =
           ([], Sent [(''Content-Type'', ''text/html'')]
                  (createHtmlTemplate html base production assetFiles))"
proof -
  from render_resolves [OF assms] obtain html where
    "fst (render env (js_or (js_replace base ''/'' (originalUrl req)) ''/'') (query req) s) = Inr html"
    by blast
  then show ?thesis by (auto simp: ssrMiddleware_def)
qed

section \<open>Related products\<close>

lemma relatedProductsOf_excludes:
  assumes "relatedProductsOf env c2 i = Inr rel"
  shows "\<forall>p\<in>set rel. js_get p ''productId'' \<noteq> Inr (JStr i)"
proof -
  from assms obtain xs where "filterRelated i xs = Inr rel"
    by (auto simp: relatedProductsOf_def and_then_def split: sum.splits jsval.splits)
  from filterRelated_eq [OF this] show ?thesis by simp
qed

lemma prefetchProducts_no_related:
  "DispatchProduct (SET_RELATED_PRODUCTS v) \<in> set (snd (prefetchProducts env q w)) \<Longrightarrow>
   DispatchProduct (SET_RELATED_PRODUCTS v) \<in> set (snd w)"
  by (auto simp: prefetchProducts_def Let_def emit_def dispatchProduct_def split: sum.splits)

lemma prefetchProductDetail_related:
  "DispatchProduct (SET_RELATED_PRODUCTS v) \<in> set (snd (prefetchProductDetail env i w)) \<Longrightarrow>
   DispatchProduct (SET_RELATED_PRODUCTS v) \<in> set (snd w) \<or>
   (\<exists>ps. v = JArr ps \<and> (\<forall>p\<in>set ps. js_get p ''productId'' \<noteq> Inr (JStr i)))"
  using relatedProductsOf_excludes [of env _ i]
  by (auto simp: prefetchProductDetail_def Let_def emit_def dispatchProduct_def
           split: sum.splits if_splits)

lemma prefetchProductDetail_dispatches_related:
  assumes "getProduct env i = Inr product" "js_get product ''category2'' = Inr c2" "truthy c2"
  shows "\<exists>ps. DispatchProduct (SET_RELATED_PRODUCTS (JArr ps))
           \<in> set (snd (prefetchProductDetail env i w))"
  using assms
  by (auto simp: prefetchProductDetail_def Let_def emit_def dispatchProduct_def
           split: sum.splits)

lemma renderAfterInit_dispatches:
  "DispatchProduct a \<in> set (snd (snd (renderAfterInit env r q w2))) \<Longrightarrow>
   DispatchProduct a \<in> set (snd (prefetch env r q w2))"
  by (auto simp: renderAfterInit_def Let_def emit_def split: sum.splits)

text \<open>
  C7. When \<^verbatim>\<open>render\<close> handles a product-detail route, with \<open>id\<close> the parameter of the
  route, every list of related products dispatched to the product store is free of the
  current product: every element has a \<open>productId\<close> different from \<open>id\<close>. And such a
  list is dispatched whenever the fetched product has a \<open>category2\<close>.
\<close>

theorem related_products_exclude_current:
  assumes "map_of (params (findRoute (cleanUrl env url) (BASE_URL env))) ''id'' = Some i"
  shows "(\<forall>v. DispatchProduct (SET_RELATED_PRODUCTS v) \<in> set (snd (snd (render env url q s))) \<longrightarrow>
            (\<exists>ps. v = JArr ps \<and> (\<forall>p\<in>set ps. js_get p ''productId'' \<noteq> Inr (JStr i)))) \<and>
         (\<forall>product c2. getProduct env i = Inr product \<and>
            js_get product ''category2'' = Inr c2 \<and> truthy c2 \<longrightarrow>
            (\<exists>ps. DispatchProduct (SET_RELATED_PRODUCTS (JArr ps))
                    \<in> set (snd (snd (render env url q s)))))"
proof -
  let ?r = "findRoute (cleanUrl env url) (BASE_URL env)"
  let ?w2 = "initializeStores env (setServerRoute (cleanUrl env url) q (params ?r) (s, []))"
  from assms findRoute_id have "i \<noteq> []" by blast
  with assms have pre: "prefetch env ?r q ?w2 = prefetchProductDetail env i ?w2"
    by (simp add: prefetch_def)
  have w2: "DispatchProduct (SET_RELATED_PRODUCTS v) \<notin> set (snd ?w2)" for v
    by (simp add: initializeStores_eq setServerRoute_def resetEvents_def)
  have first: "\<exists>ps. v = JArr ps \<and> (\<forall>p\<in>set ps. js_get p ''productId'' \<noteq> Inr (JStr i))"
    if "DispatchProduct (SET_RELATED_PRODUCTS v) \<in> set (snd (snd (render env url q s)))" for v
  proof -
    from that have "DispatchProduct (SET_RELATED_PRODUCTS v) \<in> set (snd (prefetchProductDetail env i ?w2))"
      unfolding render_eq pre [symmetric] by (rule renderAfterInit_dispatches)
    from prefetchProductDetail_related [OF this] w2 show ?thesis by simp
  qed
  have second: "\<exists>ps. DispatchProduct (SET_RELATED_PRODUCTS (JArr ps))
       \<in> set (snd (snd (render env url q s)))"
    if "getProduct env i = Inr product \<and> js_get product ''category2'' = Inr c2 \<and> truthy c2"
    for product c2
  proof -
    from that prefetchProductDetail_dispatches_related [of env i product c2 ?w2]
    obtain ps where "DispatchProduct (SET_RELATED_PRODUCTS (JArr ps))
        \<in> set (snd (prefetch env ?r q ?w2))"
      unfolding pre by blast
    with renderAfterInit_events [of env ?r q ?w2] show ?thesis
      unfolding render_eq by blast
  qed
  from first second show ?thesis by blast
qed

theorem related_products_exclude_current_witness:
  "map_of (params (findRoute (cleanUrl example_env ''/product/1'') (BASE_URL example_env))) ''id''
     = Some ''1'' \<and>
   DispatchProduct (SET_RELATED_PRODUCTS (JArr [example_product ''2'']))
     \<in> set (snd (snd (render example_env ''/product/1'' [] example_stores))) \<and>
   js_get (example_product ''2'') ''productId'' \<noteq> Inr (JStr ''1'') \<and>
   getProduct example_env ''1'' = Inr (example_product ''1'') \<and>
   js_get (example_product ''1'') ''category2'' = Inr (JStr ''shoes'') \<and>
   truthy (JStr ''shoes'')"
proof -
  have r: "map_of (params (findRoute (cleanUrl example_env ''/product/1'') (BASE_URL example_env)))
      ''id'' = Some ''1''"
    by (simp add: example_env_def cleanUrl_def js_replace_empty
          findRoute_def match_routes_cases cleanPath_empty_base before_query_def
          strip_trailing_slash_def js_or_def)
  have e: "DispatchProduct (SET_RELATED_PRODUCTS (JArr [example_product ''2'']))
      \<in> set (snd (snd (render example_env ''/product/1'' [] example_stores)))"
    by code_simp
  have g: "getProduct example_env ''1'' = Inr (example_product ''1'')"
    "js_get (example_product ''1'') ''category2'' = Inr (JStr ''shoes'')"
    by (simp_all add: example_env_def example_product_def js_get_def)
  from related_products_exclude_current [OF r, of "[]" example_stores] e
  have "js_get (example_product ''2'') ''productId'' \<noteq> Inr (JStr ''1'')"
    by auto
  with r e g show ?thesis by simp
qed

section \<open>The template of the static site generator\<close>

lemma js_replace_first:
  assumes "CHR ''$'' \<notin> set rep"
  shows "replaces_first pat rep s (js_replace pat rep s)"
proof (cases "split_first pat s")
  case None
  then have "\<not> sublist pat s" by (simp add: split_first_None)
  then show ?thesis by (simp add: replaces_first_def js_replace_absent)
next
  case (Some ab)
  obtain a b where ab: "ab = (a, b)" by (cases ab)
  with Some have sp: "split_first pat s = Some (a, b)" by simp
  from split_first_Some [OF sp] have s: "s = a @ pat @ b" .
  then have sub: "sublist pat s" by auto
  have least: "\<forall>a' b'. s = a' @ pat @ b' \<longrightarrow> length a \<le> length a'"
    using split_first_least [OF sp] by blast
  from sp assms have "js_replace pat rep s = a @ rep @ b"
    by (simp add: js_replace_def getSubstitution_plain)
  with s sub least show ?thesis
    unfolding replaces_first_def by auto
qed

lemma initialDataScript_plain:
  assumes "CHR ''$'' \<notin> set (JSON_stringify E d)"
  shows "CHR ''$'' \<notin> set (initialDataScript E d @ ''\<newline>  </body>'')"
  using assms by (simp add: initialDataScript_def)

text \<open>
  C10 (amended). The \<^verbatim>\<open>createHtmlTemplate\<close> of the generator replaces the first
  \<^verbatim>\<open><!--app-html-->\<close> of the page template by the given html, removes the first
  \<^verbatim>\<open><!--app-head-->\<close> of the result, and puts the \<^verbatim>\<open>window.__INITIAL_DATA__\<close> script
  before the first \<^verbatim>\<open></body>\<close> if and only if \<open>initialData\<close> is truthy; when
  \<open>initialData\<close> is \<^verbatim>\<open>null\<close>, omitted or falsy in another way, nothing is added to the
  template with the two placeholders replaced. (For an html and a serialised
  \<open>initialData\<close> without a dollar sign.)
\<close>

theorem createHtmlTemplate_ssg_replaces:
  assumes "files fs (templatePath E) = Some template"
    and "CHR ''$'' \<notin> set (js_to_string html)"
    and "truthy initialData \<longrightarrow> CHR ''$'' \<notin> set (JSON_stringify E initialData)"
  shows "\<exists>t1 t2 out.
           createHtmlTemplate_ssg E fs html initialData = Inr out \<and>
           replaces_first ''<!--app-html-->'' (js_to_string html) template t1 \<and>
           replaces_first ''<!--app-head-->'' [] t1 t2 \<and>
           (if truthy initialData
            then replaces_first ''</body>''
                   (initialDataScript E initialData @ ''\<newline>  </body>'') t2 out
            else out = t2)"
proof -
  let ?t1 = "js_replace ''<!--app-html-->'' (js_to_string html) template"
  let ?t2 = "js_replace ''<!--app-head-->'' [] ?t1"
  let ?script = "initialDataScript E initialData @ ''\<newline>  </body>''"
  let ?out = "if truthy initialData then js_replace ''</body>'' ?script ?t2 else ?t2"
  have default: "truthy (if initialData = JUndefined then JNull else initialData) = truthy initialData"
    by simp
  have same: "truthy initialData \<Longrightarrow> (if initialData = JUndefined then JNull else initialData) = initialData"
    by auto
  from assms(1) have "createHtmlTemplate_ssg E fs html initialData = Inr ?out"
    by (auto simp: createHtmlTemplate_ssg_def readFileSync_def and_then_def Let_def)
  moreover from assms(2) have "replaces_first ''<!--app-html-->'' (js_to_string html) template ?t1"
    by (rule js_replace_first)
  moreover have "replaces_first ''<!--app-head-->'' [] ?t1 ?t2"
    by (rule js_replace_first) simp
  moreover have "replaces_first ''</body>'' ?script ?t2 (js_replace ''</body>'' ?script ?t2)"
    if "truthy initialData"
    using that assms(3) by (intro js_replace_first initialDataScript_plain) simp
  ultimately show ?thesis
    by (intro exI [of _ ?t1] exI [of _ ?t2] exI [of _ ?out]) simp
qed

theorem createHtmlTemplate_ssg_replaces_witness:
  "files example_fs (templatePath example_ssg_env) = Some example_template \<and>
   CHR ''$'' \<notin> set (js_to_string (JStr ''<main>home</main>'')) \<and>
   truthy (JObj [(''products'', JArr [])]) \<and>
   CHR ''$'' \<notin> set (JSON_stringify example_ssg_env (JObj [(''products'', JArr [])])) \<and>
   (\<exists>t1 t2 out.
      createHtmlTemplate_ssg example_ssg_env example_fs (JStr ''<main>home</main>'')
        (JObj [(''products'', JArr [])]) = Inr out \<and>
      replaces_first ''<!--app-html-->'' (js_to_string (JStr ''<main>home</main>''))
        example_template t1 \<and>
      replaces_first ''<!--app-head-->'' [] t1 t2 \<and>
      (if truthy (JObj [(''products'', JArr [])])
       then replaces_first ''</body>''
              (initialDataScript example_ssg_env (JObj [(''products'', JArr [])]) @
               ''\<newline>  </body>'') t2 out
       else out = t2))"
proof -
  have f: "files example_fs (templatePath example_ssg_env) = Some example_template"
    by (simp add: example_fs_def templatePath_def example_ssg_env_def join_def)
  have h: "CHR ''$'' \<notin> set (js_to_string (JStr ''<main>home</main>''))"
    by simp
  have j: "CHR ''$'' \<notin> set (JSON_stringify example_ssg_env (JObj [(''products'', JArr [])]))"
    by (simp add: example_ssg_env_def)
  from createHtmlTemplate_ssg_replaces [OF f h, of "JObj [(''products'', JArr [])]"] f h j
  show ?thesis by simp
qed

lemma createHtmlTemplate_ssg_example:
  \<open>createHtmlTemplate_ssg example_ssg_env example_fs (JStr ''<main>home</main>'')
     (JObj [(''products'', JArr [])]) =
   Inr (''<head></head><body><div id="root"><main>home</main></div>'' @
        ''<script>window.__INITIAL_DATA__ = {};</script>\<newline>  </body>'')\<close>
  by code_simp

text \<open>
  C10, as stated, fails for an \<open>initialData\<close> that is not \<^verbatim>\<open>null\<close> but falsy: with
  \<^verbatim>\<open>false\<close> no script is added.
\<close>

theorem createHtmlTemplate_ssg_falsy_counterexample:
  \<open>JBool False \<noteq> JNull \<and>
   createHtmlTemplate_ssg example_ssg_env example_fs (JStr ''<main>home</main>'') (JBool False) =
     Inr ''<head></head><body><div id="root"><main>home</main></div></body>''\<close>
  by code_simp

section \<open>The pages of the static site\<close>

lemma renderDestructured_undefined:
  "fst (renderDestructured E url st) = Inr (h, d) \<Longrightarrow> h = JUndefined \<and> d = JUndefined"
  by (auto simp: renderDestructured_def Let_def and_then_def js_get_def
           split: prod.splits sum.splits)

lemma renderDestructured_rendered:
  "rendered (snd (renderDestructured E url st)) = rendered st @ [url]"
  by (simp add: renderDestructured_def Let_def split: prod.splits)

lemma generateProduct_rendered:
  "rendered (generateProduct E i st) =
     rendered st @ [BASE_URL_ssg @ ''/product/'' @ js_to_string i]"
  using renderDestructured_rendered [of E "BASE_URL_ssg @ ''/product/'' @ js_to_string i" st]
  by (auto simp: generateProduct_def Let_def split: prod.splits sum.splits)

lemma generateProducts_rendered:
  "rendered (generateProducts E ids st) =
     rendered st @ map (\<lambda>i. BASE_URL_ssg @ ''/product/'' @ js_to_string i) ids"
  by (induction ids arbitrary: st) (simp_all add: generateProduct_rendered)

text \<open>
  C2 at an input on which it fails: one product in \<^verbatim>\<open>items.json\<close>, a template with
  both placeholders, a server that renders the detail page of the product as
  \<^verbatim>\<open><main>detail</main>\<close>. \<^verbatim>\<open>render\<close> is called once for the product, and the file
  written for it holds \<^verbatim>\<open>undefined\<close> in the root element.
\<close>

theorem generateStaticSite_writes_undefined:
  \<open>fst (render example_env ''/product/1'' [] example_stores) = Inr ''<main>detail</main>'' \<and>
   (case generateStaticSite example_ssg_env example_fs example_stores of
      Completed st \<Rightarrow>
        (rendered st, successCount st, failCount st,
         files (fsys st) ''/repo/packages/vanilla/../../dist/vanilla/product/1/index.html'')
    | Exited n \<Rightarrow> ([], 0, 0, None)) =
     ([''/'', ''/product/1'', ''/not-found-page''], 1, 0,
      Some ''<head></head><body><div id="root">undefined</div></body>'')\<close>
  by code_simp


end
